theory Spec2Isabelle
  imports Complex_Main
begin

section \<open>JavaScript values\<close>

text \<open>
  The route file is parsed by \<^verbatim>\<open>response.json()\<close> into JavaScript values.  A number is a
  finite value, \<^verbatim>\<open>NaN\<close> or an infinity; a finite number is given by its real value.
\<close>

datatype jsnumber = Finite real | NaN | PosInf | NegInf

datatype jsval =
    JUndefined
  | JNull
  | JBool bool
  | JNumber jsnumber
  | JString string
  | JArray "jsval list"
  | JObject "(string \<times> jsval) list"

datatype js_error = TypeError

text \<open>\<^verbatim>\<open>typeof v === 'number'\<close>\<close>

fun typeof_number :: "jsval \<Rightarrow> bool" where
  "typeof_number (JNumber n) = True"
| "typeof_number v = False"

text \<open>\<^verbatim>\<open>isNaN(v)\<close>, on a value whose type is already known to be number.\<close>

fun isNaN :: "jsval \<Rightarrow> bool" where
  "isNaN (JNumber NaN) = True"
| "isNaN v = False"

text \<open>\<^verbatim>\<open>v >= c\<close> and \<^verbatim>\<open>v <= c\<close> for a numeric literal \<open>c\<close>, on a value of type number.
  Every comparison with \<^verbatim>\<open>NaN\<close> is false.\<close>

fun js_ge :: "jsval \<Rightarrow> real \<Rightarrow> bool" where
  "js_ge (JNumber (Finite x)) c = (c \<le> x)"
| "js_ge (JNumber PosInf) c = True"
| "js_ge v c = False"

fun js_le :: "jsval \<Rightarrow> real \<Rightarrow> bool" where
  "js_le (JNumber (Finite x)) c = (x \<le> c)"
| "js_le (JNumber NegInf) c = True"
| "js_le v c = False"

text \<open>
  The property read \<^verbatim>\<open>point.key\<close>, for the keys this program reads (\<^verbatim>\<open>latitude\<close>,
  \<^verbatim>\<open>longitude\<close>, \<^verbatim>\<open>timestamp\<close>): it throws a TypeError on \<^verbatim>\<open>null\<close> and \<^verbatim>\<open>undefined\<close>,
  finds the member of an object, and is \<^verbatim>\<open>undefined\<close> on every other value.
\<close>

fun get_prop :: "jsval \<Rightarrow> string \<Rightarrow> js_error + jsval" where
  "get_prop JUndefined k = Inl TypeError"
| "get_prop JNull k = Inl TypeError"
| "get_prop (JObject kvs) k = Inr (case map_of kvs k of None \<Rightarrow> JUndefined | Some v \<Rightarrow> v)"
| "get_prop v k = Inr JUndefined"

section \<open>VehicleMap: loading the route\<close>

text \<open>The component state of \<^verbatim>\<open>VehicleMap\<close> (its \<^verbatim>\<open>useState\<close> cells).\<close>

datatype load_error =
    FetchRejected
  | HttpError nat
  | JsonSyntaxError
  | NotAnArray
  | InvalidCoordinates
  | PointTypeError

record vm_state =
  routeData :: "jsval list"
  currentIndex :: int
  isPlaying :: bool
  error :: "load_error option"
  isLoading :: bool
  speed :: real
  showInfo :: bool

definition initial_state :: vm_state where
  "initial_state =
     \<lparr>routeData = [], currentIndex = 0, isPlaying = False, error = None,
      isLoading = True, speed = 1, showInfo = True\<rparr>"

text \<open>
  What \<^verbatim>\<open>fetch('/dummy-route.json')\<close> delivers: \<open>None\<close> when the promise rejects, else a
  response whose \<open>body\<close> is \<open>None\<close> when \<^verbatim>\<open>response.json()\<close> rejects.
\<close>

record fetch_response =
  ok :: bool
  status :: nat
  body :: "jsval option"

text \<open>The callback of \<^verbatim>\<open>data.every\<close>: the conjunction is evaluated left to right, and the
  first property read throws when the point is \<^verbatim>\<open>null\<close>.\<close>

definition valid_point :: "jsval \<Rightarrow> js_error + bool" where
  "valid_point point =
     (case get_prop point ''latitude'' of
        Inl e \<Rightarrow> Inl e
      | Inr lat \<Rightarrow>
          if \<not> typeof_number lat then Inr False
          else (case get_prop point ''longitude'' of
                  Inl e \<Rightarrow> Inl e
                | Inr lon \<Rightarrow>
                    Inr (typeof_number lon \<and> \<not> isNaN lat \<and> \<not> isNaN lon \<and>
                         js_ge lat (- 90) \<and> js_le lat 90 \<and>
                         js_ge lon (- 180) \<and> js_le lon 180)))"

text \<open>\<^verbatim>\<open>Array.prototype.every\<close>: stops at the first point that is not valid, or throws.\<close>

fun every :: "jsval list \<Rightarrow> js_error + bool" where
  "every [] = Inr True"
| "every (point # points) =
     (case valid_point point of
        Inl e \<Rightarrow> Inl e
      | Inr False \<Rightarrow> Inr False
      | Inr True \<Rightarrow> every points)"

text \<open>The \<^verbatim>\<open>try\<close> block of \<^verbatim>\<open>loadData\<close>: the data handed to \<^verbatim>\<open>setRouteData\<close>, or the error
  that the \<^verbatim>\<open>catch\<close> block receives.\<close>

definition fetch_route :: "fetch_response option \<Rightarrow> load_error + jsval list" where
  "fetch_route r =
     (case r of
        None \<Rightarrow> Inl FetchRejected
      | Some response \<Rightarrow>
          if \<not> ok response then Inl (HttpError (status response))
          else (case body response of
                  None \<Rightarrow> Inl JsonSyntaxError
                | Some (JArray data) \<Rightarrow>
                    (case every data of
                       Inl e \<Rightarrow> Inl PointTypeError
                     | Inr False \<Rightarrow> Inl InvalidCoordinates
                     | Inr True \<Rightarrow> Inr data)
                | Some v \<Rightarrow> Inl NotAnArray))"

definition loadData :: "vm_state \<Rightarrow> fetch_response option \<Rightarrow> vm_state" where
  "loadData s r =
     (let s1 = s\<lparr>isLoading := True, error := None\<rparr>;
          s2 = (case fetch_route r of
                  Inr data \<Rightarrow> s1\<lparr>routeData := data\<rparr>
                | Inl e \<Rightarrow> s1\<lparr>error := Some e\<rparr>)
      in s2\<lparr>isLoading := False\<rparr>)"

text \<open>
  The route format in the words of the specification: every element is an object whose
  \<^verbatim>\<open>latitude\<close> is a number in \<open>[-90, 90]\<close> and whose \<^verbatim>\<open>longitude\<close> is a number in
  \<open>[-180, 180]\<close> (so neither is \<^verbatim>\<open>NaN\<close>).
\<close>

fun number_in :: "real \<Rightarrow> real \<Rightarrow> jsval \<Rightarrow> bool" where
  "number_in lo hi (JNumber (Finite x)) = (lo \<le> x \<and> x \<le> hi)"
| "number_in lo hi v = False"

fun member :: "jsval \<Rightarrow> string \<Rightarrow> jsval" where
  "member (JObject kvs) k = (case map_of kvs k of None \<Rightarrow> JUndefined | Some v \<Rightarrow> v)"
| "member v k = JUndefined"

definition spec_coordinates_ok :: "jsval \<Rightarrow> bool" where
  "spec_coordinates_ok point =
     (number_in (- 90) 90 (member point ''latitude'') \<and>
      number_in (- 180) 180 (member point ''longitude''))"

fun is_string :: "jsval \<Rightarrow> bool" where
  "is_string (JString s) = True"
| "is_string v = False"

section \<open>VehicleMap: playback\<close>

text \<open>
  The events that change the playback state: the two buttons, the speed buttons and the
  callback of \<^verbatim>\<open>setInterval\<close>.
\<close>

datatype event = TogglePlay | ResetSimulation | SetSpeed real | Tick

definition togglePlay :: "vm_state \<Rightarrow> vm_state" where
  "togglePlay s = s\<lparr>isPlaying := \<not> isPlaying s\<rparr>"

definition resetSimulation :: "vm_state \<Rightarrow> vm_state" where
  "resetSimulation s = s\<lparr>isPlaying := False, currentIndex := 0\<rparr>"

text \<open>The interval callback: \<^verbatim>\<open>setCurrentIndex\<close> with the functional update.\<close>

definition interval_callback :: "vm_state \<Rightarrow> vm_state" where
  "interval_callback s =
     (let prevIndex = currentIndex s in
      if prevIndex \<ge> int (length (routeData s)) - 1
      then s\<lparr>isPlaying := False, currentIndex := prevIndex\<rparr>
      else s\<lparr>currentIndex := prevIndex + 1\<rparr>)"

text \<open>The effect keeps an interval exactly while this holds; without one no tick fires.\<close>

definition interval_running :: "vm_state \<Rightarrow> bool" where
  "interval_running s = (isPlaying s \<and> length (routeData s) > 0)"

fun handle :: "vm_state \<Rightarrow> event \<Rightarrow> vm_state" where
  "handle s TogglePlay = togglePlay s"
| "handle s ResetSimulation = resetSimulation s"
| "handle s (SetSpeed v) = s\<lparr>speed := v\<rparr>"
| "handle s Tick = (if interval_running s then interval_callback s else s)"

definition run :: "vm_state \<Rightarrow> event list \<Rightarrow> vm_state" where
  "run s evs = foldl handle s evs"

text \<open>The state once \<^verbatim>\<open>loadData\<close> has stored a route.\<close>

definition loaded :: "jsval list \<Rightarrow> vm_state" where
  "loaded route = initial_state\<lparr>routeData := route, isLoading := False\<rparr>"

section \<open>The numbers of the runtime\<close>

text \<open>
  The arithmetic on numbers and the functions of \<^verbatim>\<open>Math\<close> belong to the JavaScript
  runtime, not to this program: they are parameters of the utilities and of the marker
  animation.  What is proved of them for every runtime holds of the IEEE double arithmetic
  that runs the program; that arithmetic is defined further below.
\<close>

record runtime =
  num_add :: "jsnumber \<Rightarrow> jsnumber \<Rightarrow> jsnumber"
  num_sub :: "jsnumber \<Rightarrow> jsnumber \<Rightarrow> jsnumber"
  num_mul :: "jsnumber \<Rightarrow> jsnumber \<Rightarrow> jsnumber"
  num_div :: "jsnumber \<Rightarrow> jsnumber \<Rightarrow> jsnumber"
  Math_sin :: "jsnumber \<Rightarrow> jsnumber"
  Math_cos :: "jsnumber \<Rightarrow> jsnumber"
  Math_sqrt :: "jsnumber \<Rightarrow> jsnumber"
  Math_atan2 :: "jsnumber \<Rightarrow> jsnumber \<Rightarrow> jsnumber"
  Math_PI :: jsnumber

text \<open>Comparison and \<^verbatim>\<open>Math.min\<close> involve no rounding.  Every comparison with \<^verbatim>\<open>NaN\<close> is
  false, and \<^verbatim>\<open>Math.min\<close> of \<^verbatim>\<open>NaN\<close> is \<^verbatim>\<open>NaN\<close>.\<close>

fun num_lt :: "jsnumber \<Rightarrow> jsnumber \<Rightarrow> bool" where
  "num_lt NaN y = False"
| "num_lt x NaN = False"
| "num_lt (Finite a) (Finite b) = (a < b)"
| "num_lt NegInf NegInf = False"
| "num_lt NegInf y = True"
| "num_lt x NegInf = False"
| "num_lt PosInf y = False"
| "num_lt x PosInf = True"

definition num_le :: "jsnumber \<Rightarrow> jsnumber \<Rightarrow> bool" where
  "num_le x y = (x \<noteq> NaN \<and> y \<noteq> NaN \<and> \<not> num_lt y x)"

definition Math_min :: "jsnumber \<Rightarrow> jsnumber \<Rightarrow> jsnumber" where
  "Math_min x y = (if x = NaN \<or> y = NaN then NaN else if num_lt y x then y else x)"

section \<open>Geo-math utilities\<close>

text \<open>A route point as the utilities read it: the two coordinates in degrees and the
  timestamp as stored in the route file.  An index is an integer, as the playback state
  keeps it.\<close>

record point =
  latitude :: jsnumber
  longitude :: jsnumber
  timestamp :: jsval

definition toRad :: "runtime \<Rightarrow> jsnumber \<Rightarrow> jsnumber" where
  "toRad rt degrees = num_mul rt degrees (num_div rt (Math_PI rt) (Finite 180))"

text \<open>The term \<open>a\<close> of the Haversine formula; products and sums associate to the left.\<close>

definition haversine_a :: "runtime \<Rightarrow> jsnumber \<Rightarrow> jsnumber \<Rightarrow> jsnumber \<Rightarrow> jsnumber \<Rightarrow> jsnumber" where
  "haversine_a rt lat1 lon1 lat2 lon2 =
     (let dLat = toRad rt (num_sub rt lat2 lat1);
          dLon = toRad rt (num_sub rt lon2 lon1)
      in num_add rt
           (num_mul rt (Math_sin rt (num_div rt dLat (Finite 2)))
                       (Math_sin rt (num_div rt dLat (Finite 2))))
           (num_mul rt
              (num_mul rt
                 (num_mul rt (Math_cos rt (toRad rt lat1)) (Math_cos rt (toRad rt lat2)))
                 (Math_sin rt (num_div rt dLon (Finite 2))))
              (Math_sin rt (num_div rt dLon (Finite 2)))))"

definition calculateDistanceKm ::
  "runtime \<Rightarrow> jsnumber \<Rightarrow> jsnumber \<Rightarrow> jsnumber \<Rightarrow> jsnumber \<Rightarrow> jsnumber" where
  "calculateDistanceKm rt lat1 lon1 lat2 lon2 =
     (let R = Finite 6371;
          a = haversine_a rt lat1 lon1 lat2 lon2;
          c = num_mul rt (Finite 2)
                (Math_atan2 rt (Math_sqrt rt a) (Math_sqrt rt (num_sub rt (Finite 1) a)))
      in num_mul rt R c)"

text \<open>The distance between two route points.\<close>

definition pointDistanceKm :: "runtime \<Rightarrow> point \<Rightarrow> point \<Rightarrow> jsnumber" where
  "pointDistanceKm rt p q =
     calculateDistanceKm rt (latitude p) (longitude p) (latitude q) (longitude q)"

subsection \<open>Strings of numbers\<close>

text \<open>
  What the utilities return: a number, a string given by its characters, or the string
  that \<^verbatim>\<open>Number::toString\<close> prints for a finite number of magnitude \<open>10^21\<close> or more
  (exponent notation; its characters are not modelled).
\<close>

datatype jsret = RNum real | RStr string | RBig real

definition digit_char :: "nat \<Rightarrow> char" where
  "digit_char d = char_of (48 + d)"

fun show_nat :: "nat \<Rightarrow> string" where
  "show_nat n = (if n < 10 then [digit_char n] else show_nat (n div 10) @ [digit_char (n mod 10)])"

declare show_nat.simps [simp del]

text \<open>
  \<^verbatim>\<open>x.toFixed(2)\<close>.  For a finite \<open>x\<close>: the sign, then the integer \<open>n\<close> nearest to
  \<open>100 * |x|\<close> (the larger one of two) printed with a point before its last two digits;
  the value of \<open>x\<close> is taken exactly.
\<close>

fun toFixed :: "jsnumber \<Rightarrow> jsret" where
  "toFixed (Finite x) =
     (if 10 ^ 21 \<le> \<bar>x\<bar> then RBig x
      else let n = nat \<lfloor>\<bar>x\<bar> * 100 + 1 / 2\<rfloor> in
        RStr ((if x < 0 then ''-'' else []) @ show_nat (n div 100) @ ''.'' @
              [digit_char (n mod 100 div 10), digit_char (n mod 10)]))"
| "toFixed NaN = RStr ''NaN''"
| "toFixed PosInf = RStr ''Infinity''"
| "toFixed NegInf = RStr ''-Infinity''"

text \<open>
  The numeric value of a returned value, for the strings that the utilities return: a
  signed decimal \<^verbatim>\<open>ddd.dd\<close> has the value that \<^verbatim>\<open>StringToNumber\<close> reads, and \<^verbatim>\<open>N/A\<close> and
  \<^verbatim>\<open>NaN\<close> have none (their value is \<^verbatim>\<open>NaN\<close>, which compares with nothing).  The other
  forms that \<^verbatim>\<open>StringToNumber\<close> reads (exponents, white space, hexadecimal digits, the
  infinities) are left out.
\<close>

definition is_digit :: "char \<Rightarrow> bool" where
  "is_digit c = (48 \<le> (of_char c :: nat) \<and> (of_char c :: nat) \<le> 57)"

definition digits_value :: "string \<Rightarrow> nat" where
  "digits_value ds = foldl (\<lambda>a c. 10 * a + (of_char c - 48)) 0 ds"

definition unsigned_value :: "string \<Rightarrow> real option" where
  "unsigned_value s =
     (let ip = takeWhile is_digit s; rest = dropWhile is_digit s in
      if ip = [] then None
      else (case rest of
              [] \<Rightarrow> Some (real (digits_value ip))
            | c # fp \<Rightarrow>
                if c = CHR ''.'' \<and> fp \<noteq> [] \<and> list_all is_digit fp
                then Some (real (digits_value ip) + real (digits_value fp) / 10 ^ length fp)
                else None))"

definition decimal_value :: "string \<Rightarrow> real option" where
  "decimal_value s =
     (case s of
        [] \<Rightarrow> None
      | c # t \<Rightarrow> if c = CHR ''-'' then map_option uminus (unsigned_value t)
                 else unsigned_value s)"

fun numeric_value :: "jsret \<Rightarrow> real option" where
  "numeric_value (RNum x) = Some x"
| "numeric_value (RStr s) = decimal_value s"
| "numeric_value (RBig x) = Some x"

subsection \<open>Cumulative distance\<close>

text \<open>The array read \<^verbatim>\<open>routeData[i]\<close>: \<^verbatim>\<open>undefined\<close> outside the array.\<close>

definition array_get :: "'a list \<Rightarrow> int \<Rightarrow> 'a option" where
  "array_get xs i = (if 0 \<le> i \<and> i < int (length xs) then Some (xs ! nat i) else None)"

text \<open>
  The loop of \<^verbatim>\<open>calculateTotalDistance\<close>, entered with \<open>i = 1\<close> and \<open>totalDistance = 0\<close>.
  Reading a coordinate of a point that is \<^verbatim>\<open>undefined\<close> throws a TypeError.
\<close>

function total_loop ::
  "runtime \<Rightarrow> point list \<Rightarrow> int \<Rightarrow> int \<Rightarrow> jsnumber \<Rightarrow> js_error + jsnumber" where
  "total_loop rt route index i totalDistance =
     (if i \<le> index then
        (case array_get route (i - 1) of
           None \<Rightarrow> Inl TypeError
         | Some p \<Rightarrow>
             (case array_get route i of
                None \<Rightarrow> Inl TypeError
              | Some q \<Rightarrow>
                  total_loop rt route index (i + 1)
                    (num_add rt totalDistance
                       (calculateDistanceKm rt (latitude p) (longitude p)
                          (latitude q) (longitude q)))))
      else Inr totalDistance)"
  by pat_completeness auto
termination
  by (relation "measure (\<lambda>(rt, route, index, i, totalDistance). nat (index + 1 - i))")
    auto

declare total_loop.simps [simp del]

text \<open>An absent route (\<^verbatim>\<open>null\<close>, \<^verbatim>\<open>undefined\<close>) is \<open>None\<close>.\<close>

definition calculateTotalDistance ::
  "runtime \<Rightarrow> point list option \<Rightarrow> int \<Rightarrow> js_error + jsret" where
  "calculateTotalDistance rt route_opt index =
     (case route_opt of
        None \<Rightarrow> Inr (RNum 0)
      | Some route \<Rightarrow>
          if index = 0 then Inr (RNum 0)
          else (case total_loop rt route index 1 (Finite 0) of
                  Inl e \<Rightarrow> Inl e
                | Inr totalDistance \<Rightarrow> Inr (toFixed totalDistance)))"

subsection \<open>Speed\<close>

text \<open>
  \<open>getTime\<close> stands for \<^verbatim>\<open>new Date(timestamp).getTime()\<close> of the runtime: the time in
  milliseconds, an integer, or \<open>None\<close> for \<^verbatim>\<open>NaN\<close> (an invalid date).  With a \<^verbatim>\<open>NaN\<close> time
  the difference and the speed are \<^verbatim>\<open>NaN\<close>, the comparison \<^verbatim>\<open>NaN <= 0\<close> is false, and
  \<^verbatim>\<open>NaN.toFixed(2)\<close> is the string \<^verbatim>\<open>NaN\<close>.  Reading \<^verbatim>\<open>length\<close> of an absent route throws.
\<close>

definition calculateSpeedKmH ::
  "runtime \<Rightarrow> (jsval \<Rightarrow> int option) \<Rightarrow> int \<Rightarrow> point list option \<Rightarrow> js_error + jsret" where
  "calculateSpeedKmH rt getTime index route_opt =
     (case route_opt of
        None \<Rightarrow> if index = 0 then Inr (RStr ''0.00'') else Inl TypeError
      | Some route \<Rightarrow>
          if index = 0 \<or> length route \<le> 1 then Inr (RStr ''0.00'')
          else (case (array_get route (index - 1), array_get route index) of
                  (Some prevPoint, Some currPoint) \<Rightarrow>
                    (let distanceKm =
                           calculateDistanceKm rt (latitude prevPoint) (longitude prevPoint)
                             (latitude currPoint) (longitude currPoint)
                     in case (getTime (timestamp currPoint), getTime (timestamp prevPoint)) of
                          (Some tc, Some tp) \<Rightarrow>
                            (let timeDeltaMs =
                                   num_sub rt (Finite (of_int tc)) (Finite (of_int tp));
                                 timeDeltaHours =
                                   num_div rt timeDeltaMs (Finite (1000 * 60 * 60))
                             in if num_le timeDeltaHours (Finite 0)
                                then Inr (RStr ''N/A'')
                                else Inr (toFixed (num_div rt distanceKm timeDeltaHours)))
                        | _ \<Rightarrow> Inr (RStr ''NaN''))
                | _ \<Rightarrow> Inr (RStr ''0.00'')))"

section \<open>AnimatedMarker\<close>

text \<open>
  A position is a pair of latitude and longitude; \<^verbatim>\<open>L.latLng(position)\<close> is the same pair.
  The closure \<^verbatim>\<open>animate\<close> captures the start and end of the transition, its start time,
  the \<^verbatim>\<open>position\<close> property and the duration.
\<close>

type_synonym latlng = "jsnumber \<times> jsnumber"

record animation =
  startLatLng :: latlng
  endLatLng :: latlng
  startTime :: jsnumber
  target :: latlng
  duration :: jsnumber

text \<open>
  The refs of the component and what it drives: the position of the Leaflet marker
  (\<open>None\<close> while \<^verbatim>\<open>markerRef.current\<close> is empty), \<^verbatim>\<open>lastPosition.current\<close>,
  \<^verbatim>\<open>frameRef.current\<close>, the callbacks waiting for the next animation frame with their
  handles, the next handle that \<^verbatim>\<open>requestAnimationFrame\<close> returns and the last target of
  \<^verbatim>\<open>map.panTo\<close>.
\<close>

record marker_state =
  marker :: "latlng option"
  lastPosition :: "latlng option"
  frameRef :: "nat option"
  frames :: "(nat \<times> animation) list"
  nextHandle :: nat
  panTarget :: "latlng option"

text \<open>
  The first render: \<^verbatim>\<open>useRef(null)\<close> for the marker and the frame, \<^verbatim>\<open>useRef(position)\<close>
  for the last position; the \<^verbatim>\<open>Marker\<close> element is created at the position it is rendered
  with.
\<close>

definition mounted :: "latlng option \<Rightarrow> marker_state" where
  "mounted position =
     \<lparr>marker = position, lastPosition = position, frameRef = None, frames = [],
      nextHandle = 1, panTarget = None\<rparr>"

text \<open>\<^verbatim>\<open>frameRef.current = requestAnimationFrame(animate)\<close>\<close>

definition request_frame :: "animation \<Rightarrow> marker_state \<Rightarrow> marker_state" where
  "request_frame a s =
     s\<lparr>frames := frames s @ [(nextHandle s, a)], frameRef := Some (nextHandle s),
       nextHandle := Suc (nextHandle s)\<rparr>"

definition cancelAnimationFrame :: "nat \<Rightarrow> marker_state \<Rightarrow> marker_state" where
  "cancelAnimationFrame h s = s\<lparr>frames := filter (\<lambda>(h', a). h' \<noteq> h) (frames s)\<rparr>"

text \<open>\<^verbatim>\<open>Math.min(1, elapsedTime / duration)\<close>\<close>

definition progress_at :: "runtime \<Rightarrow> animation \<Rightarrow> jsnumber \<Rightarrow> jsnumber" where
  "progress_at rt a currentTime =
     (let elapsedTime = num_sub rt currentTime (startTime a)
      in Math_min (Finite 1) (num_div rt elapsedTime (duration a)))"

text \<open>The linear interpolation between the start and the end at a given progress.\<close>

definition interpolated :: "runtime \<Rightarrow> animation \<Rightarrow> jsnumber \<Rightarrow> latlng" where
  "interpolated rt a progress =
     (let lat = num_add rt (fst (startLatLng a))
                  (num_mul rt (num_sub rt (fst (endLatLng a)) (fst (startLatLng a))) progress);
          lng = num_add rt (snd (startLatLng a))
                  (num_mul rt (num_sub rt (snd (endLatLng a)) (snd (startLatLng a))) progress)
      in (lat, lng))"

text \<open>
  One call of \<^verbatim>\<open>animate(currentTime)\<close>: the marker is set to the interpolated position,
  then either the next frame is requested or the marker is set to \<^verbatim>\<open>endLatLng\<close>.  The
  calls of \<^verbatim>\<open>marker.setLatLng\<close> are taken to succeed (its own checks are Leaflet's).
\<close>

definition animate :: "runtime \<Rightarrow> animation \<Rightarrow> jsnumber \<Rightarrow> marker_state \<Rightarrow> marker_state" where
  "animate rt a currentTime s =
     (let progress = progress_at rt a currentTime;
          s1 = s\<lparr>marker := Some (interpolated rt a progress)\<rparr>
      in if num_lt progress (Finite 1) then request_frame a s1
         else s1\<lparr>marker := Some (endLatLng a), lastPosition := Some (target a)\<rparr>)"

text \<open>The body of the effect, run at time \<open>now\<close> (\<^verbatim>\<open>performance.now()\<close>) after a render with
  the given \<open>position\<close> and \<open>duration\<close>.\<close>

definition effect ::
  "latlng option \<Rightarrow> jsnumber \<Rightarrow> jsnumber \<Rightarrow> marker_state \<Rightarrow> marker_state" where
  "effect position dur now s =
     (case (marker s, position) of
        (Some start, Some p) \<Rightarrow>
          (case lastPosition s of
             None \<Rightarrow> s\<lparr>marker := Some p, lastPosition := Some p\<rparr>
           | Some l \<Rightarrow>
               (let a = \<lparr>startLatLng = start, endLatLng = p, startTime = now, target = p,
                         duration = dur\<rparr>;
                    s1 = (case frameRef s of
                            Some h \<Rightarrow> cancelAnimationFrame h s
                          | None \<Rightarrow> s);
                    s2 = request_frame a s1
                in s2\<lparr>panTarget := Some p\<rparr>))
      | _ \<Rightarrow> s)"

text \<open>The cleanup that the effect returns on its animated path.\<close>

definition cleanup :: "marker_state \<Rightarrow> marker_state" where
  "cleanup s = (case frameRef s of Some h \<Rightarrow> cancelAnimationFrame h s | None \<Rightarrow> s)"

text \<open>An animation frame at time \<open>t\<close>: the browser runs the callbacks requested before it.\<close>

definition frame :: "runtime \<Rightarrow> jsnumber \<Rightarrow> marker_state \<Rightarrow> marker_state" where
  "frame rt t s = foldl (\<lambda>s' (h, a). animate rt a t s') (s\<lparr>frames := []\<rparr>) (frames s)"

section \<open>IEEE double arithmetic\<close>

text \<open>
  The runtime that executes the program computes in IEEE 754 binary64.  A finite double is
  a real number; \<open>fl\<close> rounds a real to the nearest double, ties to the even significand:
  53 significant bits, the smallest quantum \<open>2^-1074\<close>, overflow to an infinity from
  \<open>2^1024\<close>.  The zero has no sign here, which matters only for the sign of a quotient by 0.
\<close>

definition round_even :: "real \<Rightarrow> int" where
  "round_even y =
     (let f = \<lfloor>y\<rfloor>; d = y - of_int f in
      if d < 1 / 2 then f else if 1 / 2 < d then f + 1 else if even f then f else f + 1)"

definition overflow_bound :: real where
  "overflow_bound = 2 ^ 1024"

definition fl :: "real \<Rightarrow> jsnumber" where
  "fl x =
     (if x = 0 then Finite 0
      else let q = max (\<lfloor>log 2 \<bar>x\<bar>\<rfloor> - 52) (- 1074);
               r = of_int (round_even (x / 2 powr of_int q)) * 2 powr of_int q
           in if overflow_bound \<le> r then PosInf
              else if r \<le> - overflow_bound then NegInf
              else Finite r)"

fun num_neg :: "jsnumber \<Rightarrow> jsnumber" where
  "num_neg (Finite x) = Finite (- x)"
| "num_neg NaN = NaN"
| "num_neg PosInf = NegInf"
| "num_neg NegInf = PosInf"

text \<open>The sign of a number other than \<^verbatim>\<open>NaN\<close>, and the infinity of a sign (\<^verbatim>\<open>NaN\<close> for 0).\<close>

fun sign_of :: "jsnumber \<Rightarrow> real" where
  "sign_of (Finite x) = sgn x"
| "sign_of PosInf = 1"
| "sign_of NegInf = - 1"
| "sign_of NaN = 0"

definition inf_of :: "real \<Rightarrow> jsnumber" where
  "inf_of s = (if s = 0 then NaN else if 0 < s then PosInf else NegInf)"

fun ieee_add :: "jsnumber \<Rightarrow> jsnumber \<Rightarrow> jsnumber" where
  "ieee_add (Finite a) (Finite b) = fl (a + b)"
| "ieee_add NaN y = NaN"
| "ieee_add x NaN = NaN"
| "ieee_add PosInf NegInf = NaN"
| "ieee_add NegInf PosInf = NaN"
| "ieee_add PosInf y = PosInf"
| "ieee_add x PosInf = PosInf"
| "ieee_add NegInf y = NegInf"
| "ieee_add x NegInf = NegInf"

definition ieee_sub :: "jsnumber \<Rightarrow> jsnumber \<Rightarrow> jsnumber" where
  "ieee_sub x y = ieee_add x (num_neg y)"

fun ieee_mul :: "jsnumber \<Rightarrow> jsnumber \<Rightarrow> jsnumber" where
  "ieee_mul (Finite a) (Finite b) = fl (a * b)"
| "ieee_mul NaN y = NaN"
| "ieee_mul x NaN = NaN"
| "ieee_mul x y = inf_of (sign_of x * sign_of y)"

fun ieee_div :: "jsnumber \<Rightarrow> jsnumber \<Rightarrow> jsnumber" where
  "ieee_div (Finite a) (Finite b) = (if b = 0 then inf_of (sgn a) else fl (a / b))"
| "ieee_div NaN y = NaN"
| "ieee_div x NaN = NaN"
| "ieee_div (Finite a) y = Finite 0"
| "ieee_div x (Finite b) = inf_of (sign_of x * (if b < 0 then - 1 else 1))"
| "ieee_div x y = NaN"

text \<open>
  The square root is correctly rounded in IEEE 754.  ECMAScript leaves the accuracy of the
  other functions of \<^verbatim>\<open>Math\<close> to the implementation; here each returns the double nearest
  to the exact value.
\<close>

fun ieee_sqrt :: "jsnumber \<Rightarrow> jsnumber" where
  "ieee_sqrt (Finite x) = (if x < 0 then NaN else fl (sqrt x))"
| "ieee_sqrt PosInf = PosInf"
| "ieee_sqrt x = NaN"

fun ieee_sin :: "jsnumber \<Rightarrow> jsnumber" where
  "ieee_sin (Finite x) = fl (sin x)"
| "ieee_sin x = NaN"

fun ieee_cos :: "jsnumber \<Rightarrow> jsnumber" where
  "ieee_cos (Finite x) = fl (cos x)"
| "ieee_cos x = NaN"

text \<open>The angle of the point \<open>(x, y)\<close>, with \<^verbatim>\<open>atan2(0, 0) = 0\<close>, and its values at the
  infinities.\<close>

definition atan2 :: "real \<Rightarrow> real \<Rightarrow> real" where
  "atan2 y x =
     (if 0 < x then arctan (y / x)
      else if x < 0 then (if 0 \<le> y then arctan (y / x) + pi else arctan (y / x) - pi)
      else if 0 < y then pi / 2
      else if y < 0 then - (pi / 2)
      else 0)"

fun angle_of :: "jsnumber \<Rightarrow> jsnumber \<Rightarrow> real" where
  "angle_of (Finite y) (Finite x) = atan2 y x"
| "angle_of PosInf (Finite x) = pi / 2"
| "angle_of NegInf (Finite x) = - (pi / 2)"
| "angle_of (Finite y) PosInf = 0"
| "angle_of (Finite y) NegInf = (if y < 0 then - pi else pi)"
| "angle_of PosInf PosInf = pi / 4"
| "angle_of PosInf NegInf = 3 * pi / 4"
| "angle_of NegInf PosInf = - (pi / 4)"
| "angle_of NegInf NegInf = - (3 * pi / 4)"
| "angle_of y x = 0"

definition ieee_atan2 :: "jsnumber \<Rightarrow> jsnumber \<Rightarrow> jsnumber" where
  "ieee_atan2 y x = (if y = NaN \<or> x = NaN then NaN else fl (angle_of y x))"

text \<open>\<^verbatim>\<open>Math.PI\<close> is the double \<^verbatim>\<open>3.141592653589793\<close>.\<close>

definition double_rt :: runtime where
  "double_rt =
     \<lparr>num_add = ieee_add, num_sub = ieee_sub, num_mul = ieee_mul, num_div = ieee_div,
      Math_sin = ieee_sin, Math_cos = ieee_cos, Math_sqrt = ieee_sqrt,
      Math_atan2 = ieee_atan2, Math_PI = Finite (884279719003555 / 2 ^ 48)\<rparr>"

subsection \<open>Exact arithmetic\<close>

text \<open>The same operations without rounding, for comparison.\<close>

fun exact_add :: "jsnumber \<Rightarrow> jsnumber \<Rightarrow> jsnumber" where
  "exact_add (Finite a) (Finite b) = Finite (a + b)"
| "exact_add x y = ieee_add x y"

fun exact_mul :: "jsnumber \<Rightarrow> jsnumber \<Rightarrow> jsnumber" where
  "exact_mul (Finite a) (Finite b) = Finite (a * b)"
| "exact_mul x y = ieee_mul x y"

fun exact_div :: "jsnumber \<Rightarrow> jsnumber \<Rightarrow> jsnumber" where
  "exact_div (Finite a) (Finite b) = (if b = 0 then inf_of (sgn a) else Finite (a / b))"
| "exact_div x y = ieee_div x y"

fun exact_sqrt :: "jsnumber \<Rightarrow> jsnumber" where
  "exact_sqrt (Finite x) = (if x < 0 then NaN else Finite (sqrt x))"
| "exact_sqrt x = ieee_sqrt x"

fun exact_sin :: "jsnumber \<Rightarrow> jsnumber" where
  "exact_sin (Finite x) = Finite (sin x)"
| "exact_sin x = NaN"

fun exact_cos :: "jsnumber \<Rightarrow> jsnumber" where
  "exact_cos (Finite x) = Finite (cos x)"
| "exact_cos x = NaN"

definition exact_atan2 :: "jsnumber \<Rightarrow> jsnumber \<Rightarrow> jsnumber" where
  "exact_atan2 y x = (if y = NaN \<or> x = NaN then NaN else Finite (angle_of y x))"

definition exact_rt :: runtime where
  "exact_rt =
     \<lparr>num_add = exact_add, num_sub = (\<lambda>x y. exact_add x (num_neg y)), num_mul = exact_mul,
      num_div = exact_div, Math_sin = exact_sin, Math_cos = exact_cos,
      Math_sqrt = exact_sqrt, Math_atan2 = exact_atan2, Math_PI = Finite pi\<rparr>"

text \<open>The conversion to radians and the term \<open>a\<close> of the Haversine formula on the reals.\<close>

definition exact_toRad :: "real \<Rightarrow> real" where
  "exact_toRad degrees = degrees * (pi / 180)"

definition exact_a :: "real \<Rightarrow> real \<Rightarrow> real \<Rightarrow> real \<Rightarrow> real" where
  "exact_a lat1 lon1 lat2 lon2 =
     (let dLat = exact_toRad (lat2 - lat1);
          dLon = exact_toRad (lon2 - lon1)
      in sin (dLat / 2) * sin (dLat / 2) +
         cos (exact_toRad lat1) * cos (exact_toRad lat2) * sin (dLon / 2) * sin (dLon / 2))"

section \<open>The specification's notions\<close>

text \<open>
  The definitions of this section follow the words of the specification; the theorems
  below compare them with the code.
\<close>

text \<open>Route loading accepts a response exactly when it is successful and carries an array
  all of whose points have coordinates in range.\<close>

definition spec_accepts :: "fetch_response option \<Rightarrow> jsval list option" where
  "spec_accepts r =
     (case r of
        None \<Rightarrow> None
      | Some response \<Rightarrow>
          if ok response then
            (case body response of
               Some (JArray data) \<Rightarrow> if list_all spec_coordinates_ok data then Some data else None
             | _ \<Rightarrow> None)
          else None)"

text \<open>The elapsed time between two points in hours; none when a timestamp is not a date.\<close>

definition spec_elapsedHours :: "(jsval \<Rightarrow> int option) \<Rightarrow> point \<Rightarrow> point \<Rightarrow> real option" where
  "spec_elapsedHours getTime prevPoint currPoint =
     (case (getTime (timestamp currPoint), getTime (timestamp prevPoint)) of
        (Some tc, Some tp) \<Rightarrow> Some (real_of_int (tc - tp) / 3600000)
      | _ \<Rightarrow> None)"

section \<open>Sample inputs\<close>

text \<open>A route element with coordinates in range whose timestamp is \<^verbatim>\<open>null\<close>, and one whose
  latitude is out of range.\<close>

definition untimed_point :: jsval where
  "untimed_point =
     JObject [(''latitude'', JNumber (Finite 0)), (''longitude'', JNumber (Finite 0)),
              (''timestamp'', JNull)]"

definition bad_point :: jsval where
  "bad_point =
     JObject [(''latitude'', JNumber (Finite 91)), (''longitude'', JNumber (Finite 0)),
              (''timestamp'', JString ''2024-01-01T00:00:00Z'')]"

definition response_with :: "jsval list \<Rightarrow> fetch_response option" where
  "response_with data = Some \<lparr>ok = True, status = 200, body = Some (JArray data)\<rparr>"

text \<open>A clock for timestamps given as a number of milliseconds (\<^verbatim>\<open>new Date(n).getTime()\<close>
  is \<open>n\<close> for the small non-negative integers used below), and a point with given
  coordinates and such a timestamp.\<close>

fun sample_getTime :: "jsval \<Rightarrow> int option" where
  "sample_getTime (JNumber (Finite t)) = Some \<lfloor>t\<rfloor>"
| "sample_getTime v = None"

definition point_at :: "real \<Rightarrow> real \<Rightarrow> real \<Rightarrow> point" where
  "point_at lat lon t =
     \<lparr>latitude = Finite lat, longitude = Finite lon, timestamp = JNumber (Finite t)\<rparr>"

text \<open>A route of two points that are nearly antipodal: latitude 8, longitude 0 and, one
  hour later, latitude -8, longitude 180.  Both pass the checks of route loading.\<close>

definition antipodal_route :: "point list" where
  "antipodal_route = [point_at 8 0 0, point_at (- 8) 180 3600000]"

text \<open>The same route as the route file gives it; the timestamps are not examined by route
  loading.\<close>

definition antipodal_json :: "jsval list" where
  "antipodal_json =
     [JObject [(''latitude'', JNumber (Finite 8)), (''longitude'', JNumber (Finite 0)),
               (''timestamp'', JNumber (Finite 0))],
      JObject [(''latitude'', JNumber (Finite (- 8))), (''longitude'', JNumber (Finite 180)),
               (''timestamp'', JNumber (Finite 3600000))]]"

text \<open>A position for the marker.\<close>

definition first_position :: latlng where
  "first_position = (Finite 17.385044, Finite 78.486671)"

text \<open>A transition of 2000 ms, started at time 100, from the double \<^verbatim>\<open>0.3\<close> to the double
  \<^verbatim>\<open>0.9\<close> in both coordinates.\<close>

definition drift_animation :: animation where
  "drift_animation =
     \<lparr>startLatLng = (Finite (5404319552844595 / 2 ^ 54), Finite (5404319552844595 / 2 ^ 54)),
      endLatLng = (Finite (8106479329266893 / 2 ^ 53), Finite (8106479329266893 / 2 ^ 53)),
      startTime = Finite 100,
      target = (Finite (8106479329266893 / 2 ^ 53), Finite (8106479329266893 / 2 ^ 53)),
      duration = Finite 2000\<rparr>"

section \<open>Playback keeps the index in bounds\<close>

lemma handle_routeData: "routeData (handle s e) = routeData s"
  by (cases e) (simp_all add: togglePlay_def resetSimulation_def interval_callback_def Let_def)

lemma handle_index_bounds:
  assumes "routeData s \<noteq> []" "0 \<le> currentIndex s"
    and "currentIndex s \<le> int (length (routeData s)) - 1"
  shows "0 \<le> currentIndex (handle s e) \<and>
         currentIndex (handle s e) \<le> int (length (routeData s)) - 1"
  using assms
  by (cases e) (auto simp: togglePlay_def resetSimulation_def interval_callback_def Let_def)

lemma run_routeData: "routeData (run s evs) = routeData s"
  unfolding run_def by (induction evs arbitrary: s) (simp_all add: handle_routeData)

lemma run_index_bounds:
  assumes "routeData s \<noteq> []" "0 \<le> currentIndex s"
    and "currentIndex s \<le> int (length (routeData s)) - 1"
  shows "0 \<le> currentIndex (run s evs) \<and>
         currentIndex (run s evs) \<le> int (length (routeData s)) - 1"
  using assms unfolding run_def
proof (induction evs arbitrary: s)
  case Nil
  then show ?case by simp
next
  case (Cons e evs)
  have "routeData (handle s e) \<noteq> []"
    using Cons.prems(1) by (simp add: handle_routeData)
  moreover have "0 \<le> currentIndex (handle s e) \<and>
      currentIndex (handle s e) \<le> int (length (routeData (handle s e))) - 1"
    using handle_index_bounds [OF Cons.prems] by (simp add: handle_routeData)
  ultimately show ?case
    using Cons.IH [of "handle s e"] by (simp add: handle_routeData)
qed

lemma tick_at_last_index:
  assumes "isPlaying s" "routeData s \<noteq> []"
    and "currentIndex s = int (length (routeData s)) - 1"
  shows "currentIndex (handle s Tick) = currentIndex s \<and> \<not> isPlaying (handle s Tick)"
  using assms by (simp add: interval_running_def interval_callback_def)

text \<open>The interval callback alone, whatever the state it finds, never moves the index past
  the last point of a route.\<close>

lemma interval_callback_bounds:
  assumes "currentIndex s \<le> int (length (routeData s)) - 1"
  shows "currentIndex (interval_callback s) \<le> int (length (routeData (interval_callback s))) - 1"
  using assms by (simp add: interval_callback_def Let_def)

text \<open>With an empty route no event moves the index: it stays 0.\<close>

lemma empty_route_index:
  "routeData s = [] \<Longrightarrow> currentIndex s = 0 \<Longrightarrow> currentIndex (run s evs) = 0"
  unfolding run_def
proof (induction evs arbitrary: s)
  case Nil
  then show ?case by simp
next
  case (Cons e evs)
  have "routeData (handle s e) = []" "currentIndex (handle s e) = 0"
    using Cons.prems
    by (cases e; simp add: togglePlay_def resetSimulation_def interval_running_def)+
  then show ?case using Cons.IH [of "handle s e"] by simp
qed

text \<open>
  C1 (as amended): for every non-empty loaded route and every sequence of events (play or
  pause, reset, set-speed, timer ticks) the index stays within \<open>[0, len(route) - 1]\<close>,
  and a tick that finds the playing simulation at the last index leaves the index there
  and sets \<open>isPlaying\<close> to false.
\<close>

theorem playback_index_in_bounds:
  assumes "route \<noteq> []"
  shows "0 \<le> currentIndex (run (loaded route) evs) \<and>
         currentIndex (run (loaded route) evs) \<le> int (length route) - 1 \<and>
         (isPlaying (run (loaded route) evs) \<and>
          currentIndex (run (loaded route) evs) = int (length route) - 1 \<longrightarrow>
            currentIndex (handle (run (loaded route) evs) Tick) = int (length route) - 1 \<and>
            \<not> isPlaying (handle (run (loaded route) evs) Tick))"
proof -
  have r: "routeData (run (loaded route) evs) = route"
    by (simp add: run_routeData loaded_def)
  have "routeData (loaded route) \<noteq> []" "0 \<le> currentIndex (loaded route)"
    "currentIndex (loaded route) \<le> int (length (routeData (loaded route))) - 1"
    using assms by (cases route; simp add: loaded_def initial_state_def)+
  from run_index_bounds [OF this, of evs]
  have b: "0 \<le> currentIndex (run (loaded route) evs) \<and>
         currentIndex (run (loaded route) evs) \<le> int (length route) - 1"
    by (simp add: loaded_def)
  show ?thesis
    using b tick_at_last_index [of "run (loaded route) evs"] r assms by auto
qed

text \<open>On a route of two points: the first tick reaches the last index and playback goes on;
  the second tick stops it; a third tick changes nothing.\<close>

theorem playback_index_in_bounds_witness:
  "[untimed_point, untimed_point] \<noteq> [] \<and>
   currentIndex (run (loaded [untimed_point, untimed_point]) [TogglePlay, Tick]) = 1 \<and>
   isPlaying (run (loaded [untimed_point, untimed_point]) [TogglePlay, Tick]) \<and>
   currentIndex (run (loaded [untimed_point, untimed_point]) [TogglePlay, Tick, Tick]) = 1 \<and>
   \<not> isPlaying (run (loaded [untimed_point, untimed_point]) [TogglePlay, Tick, Tick]) \<and>
   currentIndex (run (loaded [untimed_point, untimed_point]) [TogglePlay, Tick, Tick, Tick]) = 1"
  using playback_index_in_bounds [of "[untimed_point, untimed_point]" "[TogglePlay, Tick]"]
  by (simp add: run_def loaded_def initial_state_def togglePlay_def interval_running_def
      interval_callback_def)

text \<open>C1 as stated fails for the empty route, which the loader accepts: the index is 0 and
  \<open>len(route) - 1\<close> is \<open>-1\<close>.\<close>

theorem empty_route_index_counterexample:
  "error (loadData initial_state (response_with [])) = None \<and>
   loadData initial_state (response_with []) = loaded [] \<and>
   \<not> currentIndex (run (loaded []) []) \<le> int (length (routeData (run (loaded []) []))) - 1"
  by (simp add: run_def loaded_def initial_state_def loadData_def fetch_route_def
      response_with_def)

section \<open>Route loading checks the coordinates\<close>

lemma valid_point_iff: "valid_point p = Inr True \<longleftrightarrow> spec_coordinates_ok p"
proof (cases p)
  case (JObject kvs)
  show ?thesis
  proof (cases "map_of kvs ''latitude''")
    case None
    then show ?thesis using JObject by (simp add: valid_point_def spec_coordinates_ok_def)
  next
    case (Some lat)
    note lat = this
    show ?thesis
    proof (cases "map_of kvs ''longitude''")
      case None
      then show ?thesis using JObject lat
        by (cases lat) (simp_all add: valid_point_def spec_coordinates_ok_def)
    next
      case (Some lon)
      have n: "typeof_number v \<and> \<not> isNaN v \<and> js_ge v lo \<and> js_le v hi \<longleftrightarrow> number_in lo hi v"
        for v lo hi
      proof (cases v)
        case (JNumber x)
        then show ?thesis by (cases x) auto
      qed auto
      show ?thesis
        using JObject lat Some n [of lat "- 90" 90] n [of lon "- 180" 180]
        by (auto simp: valid_point_def spec_coordinates_ok_def)
    qed
  qed
qed (simp_all add: valid_point_def spec_coordinates_ok_def)

lemma every_iff: "every data = Inr True \<longleftrightarrow> list_all spec_coordinates_ok data"
proof (induction data)
  case Nil
  then show ?case by simp
next
  case (Cons p ps)
  show ?case
  proof (cases "valid_point p")
    case (Inl e)
    then show ?thesis using valid_point_iff [of p] by simp
  next
    case (Inr b)
    then show ?thesis using valid_point_iff [of p] Cons.IH by (cases b) simp_all
  qed
qed

lemma fetch_route_spec:
  "fetch_route r = Inr data \<longleftrightarrow> spec_accepts r = Some data"
proof (cases r)
  case None
  then show ?thesis by (simp add: fetch_route_def spec_accepts_def)
next
  case (Some resp)
  show ?thesis
  proof (cases "ok resp")
    case False
    then show ?thesis using Some by (simp add: fetch_route_def spec_accepts_def)
  next
    case True
    note ok = this
    show ?thesis
    proof (cases "body resp")
      case None
      then show ?thesis using Some ok by (simp add: fetch_route_def spec_accepts_def)
    next
      case (Some v)
      note v = this
      show ?thesis
      proof (cases v)
        case (JArray xs)
        show ?thesis
        proof (cases "every xs")
          case (Inl e)
          then show ?thesis using \<open>r = Some resp\<close> ok v JArray every_iff [of xs]
            by (simp add: fetch_route_def spec_accepts_def)
        next
          case (Inr b)
          then show ?thesis using \<open>r = Some resp\<close> ok v JArray every_iff [of xs]
            by (cases b) (auto simp: fetch_route_def spec_accepts_def)
        qed
      qed (use \<open>r = Some resp\<close> ok v in \<open>simp_all add: fetch_route_def spec_accepts_def\<close>)
    qed
  qed
qed

text \<open>An accepted route is stored, and the state is the one playback starts from.\<close>

lemma loadData_loaded:
  assumes "spec_accepts r = Some data"
  shows "loadData initial_state r = loaded data"
proof -
  have "fetch_route r = Inr data" using assms by (simp add: fetch_route_spec)
  then show ?thesis by (simp add: loadData_def loaded_def initial_state_def)
qed

text \<open>
  C2 (as amended): route loading accepts the fetched data exactly when it is an array in
  which every element has a numeric, non-NaN latitude in \<open>[-90, 90]\<close> and a numeric, non-NaN
  longitude in \<open>[-180, 180]\<close>; the timestamp is not examined.  If any single point is
  invalid the whole route is rejected: the stored route, the index and \<open>isPlaying\<close> are left
  as they were and an error is set.
\<close>

theorem loadData_checks_coordinates:
  "(case spec_accepts r of
      Some data \<Rightarrow> loadData s r = s\<lparr>routeData := data, error := None, isLoading := False\<rparr>
    | None \<Rightarrow> error (loadData s r) \<noteq> None \<and> routeData (loadData s r) = routeData s \<and>
              isPlaying (loadData s r) = isPlaying s \<and>
              currentIndex (loadData s r) = currentIndex s)"
proof (cases "fetch_route r")
  case (Inl e)
  then have "spec_accepts r = None"
    using fetch_route_spec [of r] by (cases "spec_accepts r") auto
  then show ?thesis using Inl by (simp add: loadData_def)
next
  case (Inr data)
  then have "spec_accepts r = Some data" by (simp add: fetch_route_spec)
  then show ?thesis using Inr by (simp add: loadData_def)
qed

theorem loadData_checks_coordinates_witness:
  "loadData initial_state (response_with [untimed_point, untimed_point]) =
     loaded [untimed_point, untimed_point] \<and>
   error (loadData initial_state (response_with [untimed_point, bad_point])) \<noteq> None \<and>
   routeData (loadData initial_state (response_with [untimed_point, bad_point])) = [] \<and>
   \<not> isPlaying (loadData initial_state (response_with [untimed_point, bad_point]))"
  using loadData_checks_coordinates
      [where r = "response_with [untimed_point, untimed_point]" and s = initial_state]
    loadData_checks_coordinates
      [where r = "response_with [untimed_point, bad_point]" and s = initial_state]
  by (simp add: spec_accepts_def spec_coordinates_ok_def untimed_point_def bad_point_def
      response_with_def loaded_def initial_state_def)

text \<open>C2 as stated fails: a point whose timestamp is \<^verbatim>\<open>null\<close>, not a string, is accepted.\<close>

theorem loadData_timestamp_counterexample:
  "\<not> is_string (member untimed_point ''timestamp'') \<and>
   routeData (loadData initial_state (response_with [untimed_point])) = [untimed_point] \<and>
   error (loadData initial_state (response_with [untimed_point])) = None"
  by (simp add: untimed_point_def response_with_def loadData_def fetch_route_def
      valid_point_def initial_state_def)

section \<open>Rounding to the nearest double\<close>

lemma round_even_bounds:
  "y - 1 / 2 \<le> of_int (round_even y) \<and> of_int (round_even y) \<le> y + 1 / 2"
proof -
  define f where "f = \<lfloor>y\<rfloor>"
  have f: "of_int f \<le> y" "y < of_int f + 1" unfolding f_def by linarith+
  have r: "round_even y = (if y - of_int f < 1 / 2 then f else if 1 / 2 < y - of_int f then f + 1
      else if even f then f else f + 1)"
    by (simp add: round_even_def f_def)
  show ?thesis
  proof (cases "y - of_int f < 1 / 2")
    case True
    then show ?thesis using f r by simp
  next
    case False
    note nl = this
    show ?thesis
    proof (cases "1 / 2 < y - of_int f")
      case True
      then show ?thesis using f r nl by simp
    next
      case False
      then have "y - of_int f = 1 / 2" using nl by simp
      then show ?thesis using r by (cases "even f") simp_all
    qed
  qed
qed

lemma round_even_eq:
  assumes "of_int n - 1 / 2 < y" "y < of_int n + 1 / 2"
  shows "round_even y = n"
proof -
  have "of_int (round_even y) < (of_int n :: real) + 1" "(of_int n :: real) - 1 < of_int (round_even y)"
    using round_even_bounds [of y] assms by linarith+
  then have "round_even y < n + 1" "n - 1 < round_even y"
    by (metis of_int_1 of_int_add of_int_less_iff, metis of_int_1 of_int_diff of_int_less_iff)
  then show ?thesis by simp
qed

lemma round_even_of_int: "round_even (of_int n) = n"
  by (rule round_even_eq) simp_all

lemma two_powr_diff: "2 powr (of_int (int a - int b)) = (2 ^ a / 2 ^ b :: real)"
proof -
  have "(2 :: real) powr (of_int (int a - int b)) = 2 powr (real a - real b)" by simp
  also have "\<dots> = 2 powr real a / 2 powr real b" by (rule powr_diff)
  also have "\<dots> = 2 ^ a / 2 ^ b" by (simp add: powr_realpow)
  finally show ?thesis .
qed

lemma binade_eq:
  assumes "2 ^ a \<le> \<bar>x\<bar> * 2 ^ j" "\<bar>x\<bar> * 2 ^ j < 2 ^ Suc a"
  shows "\<lfloor>log 2 \<bar>x\<bar>\<rfloor> = int a - int j"
proof -
  have pos: "0 < \<bar>x\<bar>"
  proof (rule ccontr)
    assume "\<not> 0 < \<bar>x\<bar>"
    then have "\<bar>x\<bar> * 2 ^ j = 0" by simp
    moreover have "(0 :: real) < 2 ^ a" by simp
    ultimately show False using assms(1) by linarith
  qed
  have "2 ^ a / 2 ^ j \<le> \<bar>x\<bar>" using assms(1) by (simp add: field_simps)
  then have l: "of_int (int a - int j) \<le> log 2 \<bar>x\<bar>"
    using pos by (simp add: le_log_iff two_powr_diff del: of_int_diff)
  have "\<bar>x\<bar> < 2 ^ Suc a / 2 ^ j" using assms(2) by (simp add: field_simps)
  then have "\<bar>x\<bar> < 2 powr (of_int (int (Suc a) - int j))"
    by (simp only: two_powr_diff)
  then have "log 2 \<bar>x\<bar> < of_int (int (Suc a) - int j)"
    using pos by (simp add: log_less_iff del: of_int_diff power_Suc)
  then have u: "log 2 \<bar>x\<bar> < of_int (int a - int j) + 1" by simp
  show ?thesis using l u by (simp add: floor_eq_iff del: of_int_diff)
qed

lemma fl_scaled:
  assumes "2 ^ 52 \<le> \<bar>x\<bar> * 2 ^ j" "\<bar>x\<bar> * 2 ^ j < 2 ^ 53" "j \<le> 1074"
  shows "fl x = Finite (of_int (round_even (x * 2 ^ j)) / 2 ^ j)"
proof -
  have x0: "x \<noteq> 0" using assms(1) by auto
  have "\<bar>x\<bar> * 2 ^ j < 2 ^ Suc 52" using assms(2) by simp
  then have b: "\<lfloor>log 2 \<bar>x\<bar>\<rfloor> = int 52 - int j" by (rule binade_eq [OF assms(1)])
  have q: "max (\<lfloor>log 2 \<bar>x\<bar>\<rfloor> - 52) (- 1074) = int 0 - int j"
    using assms(3) b by simp
  have p: "2 powr of_int (int 0 - int j) = (1 / 2 ^ j :: real)"
    using two_powr_diff [of 0 j] by simp
  define n where "n = round_even (x * 2 ^ j)"
  have "\<bar>x * 2 ^ j\<bar> < 2 ^ 53" using assms(2) by (simp add: abs_mult)
  then have "\<bar>real_of_int n\<bar> \<le> 2 ^ 53 + 1 / 2"
    using round_even_bounds [of "x * 2 ^ j"] unfolding n_def by linarith
  moreover have "\<bar>real_of_int n\<bar> / 2 ^ j \<le> \<bar>real_of_int n\<bar>"
    by (simp add: divide_le_eq mult_le_cancel_left1)
  moreover have "(2 ^ 53 + 1 / 2 :: real) < 2 ^ 1024" by simp
  ultimately have "\<bar>real_of_int n\<bar> / 2 ^ j < overflow_bound"
    unfolding overflow_bound_def by linarith
  then have "\<bar>real_of_int n / 2 ^ j\<bar> < overflow_bound" by simp
  then have r: "\<not> overflow_bound \<le> real_of_int n / 2 ^ j"
    "\<not> real_of_int n / 2 ^ j \<le> - overflow_bound"
    by linarith+
  show ?thesis
    unfolding fl_def Let_def q p using x0 r
    by (simp add: n_def [symmetric])
qed

lemma fl_round:
  assumes "2 ^ 52 \<le> \<bar>x\<bar> * 2 ^ j" "\<bar>x\<bar> * 2 ^ j < 2 ^ 53" "j \<le> 1074"
    and "of_int n - 1 / 2 < x * 2 ^ j" "x * 2 ^ j < of_int n + 1 / 2"
  shows "fl x = Finite (of_int n / 2 ^ j)"
  using fl_scaled [OF assms(1-3)] round_even_eq [OF assms(4,5)] by simp

text \<open>A tie goes to the even neighbour.\<close>

lemma round_even_tie:
  assumes "y = of_int n - 1 / 2 \<or> y = of_int n + 1 / 2" "even n"
  shows "round_even y = n"
proof -
  from assms(1) show ?thesis
  proof
    assume y: "y = of_int n - 1 / 2"
    have "\<lfloor>y\<rfloor> = n - 1" unfolding y by (rule floor_unique) simp_all
    then show ?thesis using assms(2) by (simp add: round_even_def y)
  next
    assume y: "y = of_int n + 1 / 2"
    have "\<lfloor>y\<rfloor> = n" unfolding y by (rule floor_unique) simp_all
    then show ?thesis using assms(2) by (simp add: round_even_def y)
  qed
qed

lemma fl_tie:
  assumes "2 ^ 52 \<le> \<bar>x\<bar> * 2 ^ j" "\<bar>x\<bar> * 2 ^ j < 2 ^ 53" "j \<le> 1074"
    and "x * 2 ^ j = of_int n - 1 / 2 \<or> x * 2 ^ j = of_int n + 1 / 2" "even n"
  shows "fl x = Finite (of_int n / 2 ^ j)"
  using fl_scaled [OF assms(1-3)] round_even_tie [OF assms(4,5)] by simp

lemma fl_zero: "fl 0 = Finite 0"
  by (simp add: fl_def)

lemma fl_one: "fl 1 = Finite 1"
proof -
  have "fl 1 = Finite (real_of_int (2 ^ 52) / 2 ^ 52)"
    by (rule fl_round) simp_all
  then show ?thesis by simp
qed

subsection \<open>Rounding keeps order and sign\<close>

lemma floor_le_round_even: "\<lfloor>y\<rfloor> \<le> round_even y"
  by (simp add: round_even_def Let_def)

lemma round_even_tie_even:
  assumes "y = of_int (round_even y) - 1 / 2 \<or> y = of_int (round_even y) + 1 / 2"
  shows "even (round_even y)"
proof -
  define n where "n = round_even y"
  from assms have "y = of_int n - 1 / 2 \<or> y = of_int n + 1 / 2" by (simp add: n_def)
  then show ?thesis
  proof
    assume y: "y = of_int n - 1 / 2"
    have f: "\<lfloor>y\<rfloor> = n - 1" unfolding y by (rule floor_unique) simp_all
    have "round_even y = (if even (n - 1) then n - 1 else n)"
      by (simp add: round_even_def f) (simp add: y)
    then have "\<not> even (n - 1)" unfolding n_def [symmetric] by (auto split: if_splits)
    then show ?thesis by (simp add: n_def)
  next
    assume y: "y = of_int n + 1 / 2"
    have f: "\<lfloor>y\<rfloor> = n" unfolding y by (rule floor_unique) simp_all
    have "round_even y = (if even n then n else n + 1)"
      by (simp add: round_even_def f) (simp add: y)
    then have "even n" unfolding n_def [symmetric] by (auto split: if_splits)
    then show ?thesis by (simp add: n_def)
  qed
qed

lemma round_even_minus: "round_even (- y) = - round_even y"
proof -
  define n where "n = round_even y"
  have b: "y - 1 / 2 \<le> of_int n" "of_int n \<le> y + 1 / 2"
    using round_even_bounds [of y] by (simp_all add: n_def)
  show ?thesis
  proof (cases "y = of_int n - 1 / 2 \<or> y = of_int n + 1 / 2")
    case True
    then have e: "even (- n)" using round_even_tie_even [of y] by (simp add: n_def)
    from True have "- y = of_int (- n) - 1 / 2 \<or> - y = of_int (- n) + 1 / 2" by auto
    then have "round_even (- y) = - n" using e by (rule round_even_tie)
    then show ?thesis by (simp add: n_def)
  next
    case False
    then have "of_int (- n) - 1 / 2 < - y" "- y < of_int (- n) + 1 / 2"
      using b by auto
    then have "round_even (- y) = - n" by (rule round_even_eq)
    then show ?thesis by (simp add: n_def)
  qed
qed

lemma overflow_bound_pos: "0 < overflow_bound"
  by (simp add: overflow_bound_def)

lemma fl_minus: "fl (- x) = num_neg (fl x)"
proof (cases "x = 0")
  case True
  then show ?thesis by (simp add: fl_def)
next
  case False
  define q where "q = max (\<lfloor>log 2 \<bar>x\<bar>\<rfloor> - 52) (- 1074)"
  define r :: real where "r = of_int (round_even (x / 2 powr of_int q)) * 2 powr of_int q"
  have m: "of_int (round_even (- x / 2 powr of_int q)) * 2 powr of_int q = - r"
    using round_even_minus [of "x / 2 powr of_int q"] by (simp add: r_def)
  have a: "fl x = (if overflow_bound \<le> r then PosInf
      else if r \<le> - overflow_bound then NegInf else Finite r)"
    using False by (simp add: fl_def Let_def q_def r_def)
  have b: "fl (- x) = (if overflow_bound \<le> - r then PosInf
      else if - r \<le> - overflow_bound then NegInf else Finite (- r))"
    using False unfolding fl_def Let_def abs_minus_cancel q_def [symmetric] m by simp
  show ?thesis
    unfolding a b using overflow_bound_pos by auto
qed

text \<open>A number that is at least a power of two in the normal range is rounded to a
  double that is at least that power, or to \<^verbatim>\<open>Infinity\<close>.\<close>

lemma fl_ge:
  assumes "2 powr of_int e \<le> x" "- 1022 \<le> e"
  shows "fl x = PosInf \<or> (\<exists>r. fl x = Finite r \<and> 2 powr of_int e \<le> r)"
proof -
  have xpos: "0 < x"
    using assms(1) by (rule less_le_trans [rotated]) simp
  define p where "p = \<lfloor>log 2 x\<rfloor>"
  have "of_int e \<le> log 2 x" using assms(1) xpos by (simp add: le_log_iff)
  then have pe: "e \<le> p" by (simp add: p_def le_floor_iff)
  have "of_int p \<le> log 2 x" by (simp add: p_def)
  then have px: "2 powr of_int p \<le> x" using xpos by (simp add: le_log_iff)
  define q where "q = p - 52"
  have qmax: "max (\<lfloor>log 2 \<bar>x\<bar>\<rfloor> - 52) (- 1074) = q"
    using pe assms(2) xpos by (simp add: q_def p_def)
  define y :: real where "y = x / 2 powr of_int q"
  have "2 powr of_int p / 2 powr of_int q \<le> y"
    unfolding y_def using px by (intro divide_right_mono) simp_all
  moreover have "2 powr of_int p / 2 powr of_int q = (2 :: real) powr (of_int p - of_int q)"
    by (simp add: powr_diff)
  moreover have "(of_int p - of_int q :: real) = 52" by (simp add: q_def)
  ultimately have "(2 :: real) powr 52 \<le> y" by simp
  then have y52: "of_int (2 ^ 52) \<le> y" by simp
  then have "2 ^ 52 \<le> \<lfloor>y\<rfloor>" by (simp only: le_floor_iff)
  then have "2 ^ 52 \<le> round_even y" using floor_le_round_even [of y] by linarith
  then have ry: "(2 :: real) ^ 52 \<le> of_int (round_even y)"
    by (metis of_int_le_iff of_int_numeral of_int_power)
  define r :: real where "r = of_int (round_even y) * 2 powr of_int q"
  have "2 ^ 52 * 2 powr of_int q \<le> r"
    unfolding r_def using ry by (intro mult_right_mono) simp_all
  moreover have "2 ^ 52 * 2 powr of_int q = (2 :: real) powr (52 + of_int q)"
    by (simp add: powr_add)
  moreover have "(52 + of_int q :: real) = of_int p" by (simp add: q_def)
  ultimately have rp: "2 powr of_int p \<le> r" by simp
  have "(2 :: real) powr of_int e \<le> 2 powr of_int p" using pe by simp
  then have re: "2 powr of_int e \<le> r" using rp by linarith
  have rpos: "0 < r" using re by (rule less_le_trans [rotated]) simp
  have "fl x = (if overflow_bound \<le> r then PosInf
      else if r \<le> - overflow_bound then NegInf else Finite r)"
    using xpos unfolding fl_def Let_def qmax by (simp add: r_def y_def)
  then show ?thesis using re rpos overflow_bound_pos by auto
qed

lemma fl_ge_one: "1 \<le> x \<Longrightarrow> fl x = PosInf \<or> (\<exists>r. fl x = Finite r \<and> 1 \<le> r)"
  using fl_ge [of 0 x] by simp

lemma fl_positive: "1 / 2 ^ 22 \<le> x \<Longrightarrow> fl x = PosInf \<or> (\<exists>r. fl x = Finite r \<and> 0 < r)"
proof -
  assume a: "1 / 2 ^ 22 \<le> x"
  have "(2 :: real) powr of_int (- 22) = 1 / 2 ^ 22"
    by (simp add: powr_minus_divide)
  then have "2 powr of_int (- 22) \<le> x" using a by simp
  from fl_ge [OF this] have "fl x = PosInf \<or> (\<exists>r. fl x = Finite r \<and> 2 powr of_int (- 22) \<le> r)"
    by simp
  moreover have "0 < r" if "2 powr of_int (- 22) \<le> r" for r :: real
    using that by (rule less_le_trans [rotated]) simp
  ultimately show ?thesis by blast
qed

subsection \<open>The test of the elapsed time\<close>

text \<open>
  In doubles the test \<^verbatim>\<open>timeDeltaHours <= 0\<close> comes out as it does on the exact difference
  of the two times, whatever the times are.
\<close>

lemma double_hours_positive:
  assumes "0 < d"
  shows "\<not> num_le (ieee_div (fl (of_int d)) (Finite 3600000)) (Finite 0)"
proof -
  have "1 \<le> (of_int d :: real)" using assms by simp
  from fl_ge_one [OF this] show ?thesis
  proof
    assume "fl (of_int d) = PosInf"
    then show ?thesis by (simp add: num_le_def inf_of_def)
  next
    assume "\<exists>r. fl (real_of_int d) = Finite r \<and> 1 \<le> r"
    then obtain r where r: "fl (of_int d) = Finite r" "1 \<le> r" by blast
    have "1 / 3600000 \<le> r / 3600000" using r(2) by simp
    then have "1 / 2 ^ 22 \<le> r / 3600000" by simp
    from fl_positive [OF this] show ?thesis
      by (auto simp: r(1) num_le_def)
  qed
qed

lemma double_hours_negative:
  assumes "0 < m"
  shows "num_le (ieee_div (fl (- of_int m)) (Finite 3600000)) (Finite 0)"
proof -
  have n: "fl (- of_int m) = num_neg (fl (of_int m))"
    by (rule fl_minus)
  have "1 \<le> (of_int m :: real)" using assms by simp
  from fl_ge_one [OF this] show ?thesis
  proof
    assume "fl (of_int m) = PosInf"
    then show ?thesis by (simp add: n num_le_def inf_of_def)
  next
    assume "\<exists>r. fl (real_of_int m) = Finite r \<and> 1 \<le> r"
    then obtain r where r: "fl (of_int m) = Finite r" "1 \<le> r" by blast
    have d: "ieee_div (fl (- of_int m)) (Finite 3600000) = num_neg (fl (r / 3600000))"
      unfolding n r(1) using fl_minus [of "r / 3600000"] by simp
    have "1 / 3600000 \<le> r / 3600000" using r(2) by simp
    then have "1 / 2 ^ 22 \<le> r / 3600000" by simp
    from fl_positive [OF this] show ?thesis
      unfolding d by (auto simp: num_le_def)
  qed
qed

lemma double_time_test:
  "num_le (ieee_div (ieee_sub (Finite (of_int tc)) (Finite (of_int tp))) (Finite (1000 * 60 * 60)))
       (Finite 0) \<longleftrightarrow>
   real_of_int (tc - tp) / (1000 * 60 * 60) \<le> 0"
proof -
  have s: "ieee_sub (Finite (of_int tc)) (Finite (of_int tp)) = fl (of_int (tc - tp))"
    by (simp add: ieee_sub_def)
  consider "tc - tp = 0" | "0 < tc - tp" | "tc - tp < 0" by linarith
  then show ?thesis
  proof cases
    case 1
    then show ?thesis unfolding s by (simp add: fl_def num_le_def)
  next
    case 2
    then show ?thesis unfolding s using double_hours_positive [OF 2]
      by (simp add: divide_le_0_iff del: of_int_diff)
  next
    case 3
    then have "0 < tp - tc" by simp
    from double_hours_negative [OF this]
    have "num_le (ieee_div (fl (of_int (tc - tp))) (Finite 3600000)) (Finite 0)"
      by simp
    then show ?thesis unfolding s using 3
      by (simp add: divide_le_0_iff del: of_int_diff)
  qed
qed

subsection \<open>The progress of a transition\<close>

text \<open>Once the elapsed time has reached a positive duration, or any time after the start
  when the duration is 0, the progress is 1.\<close>

lemma double_progress_complete:
  assumes "ieee_sub currentTime (startTime a) = Finite e" "duration a = Finite d"
    and "0 < d \<and> d \<le> e \<or> d = 0 \<and> 0 < e"
  shows "progress_at double_rt a currentTime = Finite 1"
proof -
  have p: "progress_at double_rt a currentTime =
      Math_min (Finite 1) (ieee_div (Finite e) (Finite d))"
    by (simp add: progress_at_def double_rt_def assms(1,2))
  from assms(3) show ?thesis
  proof
    assume d: "0 < d \<and> d \<le> e"
    then have "1 \<le> e / d" by simp
    from fl_ge_one [OF this] show ?thesis
      using d by (auto simp: p Math_min_def)
  next
    assume "d = 0 \<and> 0 < e"
    then show ?thesis by (simp add: p Math_min_def inf_of_def)
  qed
qed

section \<open>Printing decimals\<close>

lemma digit_char_is_digit: "d < 10 \<Longrightarrow> is_digit (digit_char d)"
  by (simp add: is_digit_def digit_char_def)

lemma show_nat_digits: "list_all is_digit (show_nat n)"
proof (induction n rule: show_nat.induct)
  case (1 n)
  show ?case
  proof (cases "n < 10")
    case True
    then show ?thesis by (subst show_nat.simps) (simp add: digit_char_is_digit)
  next
    case False
    then show ?thesis using 1 by (subst show_nat.simps) (simp add: digit_char_is_digit)
  qed
qed

lemma show_nat_nonempty: "show_nat n \<noteq> []"
  by (subst show_nat.simps) simp

lemma hd_show_nat: "show_nat n = c # t \<Longrightarrow> is_digit c"
  using show_nat_digits [of n] by simp

lemma digit_chars:
  "digit_char 0 = CHR ''0''" "digit_char 1 = CHR ''1''" "digit_char 2 = CHR ''2''"
  "digit_char 3 = CHR ''3''" "digit_char 4 = CHR ''4''" "digit_char 5 = CHR ''5''"
  "digit_char 6 = CHR ''6''" "digit_char 7 = CHR ''7''" "digit_char 8 = CHR ''8''"
  "digit_char 9 = CHR ''9''" "digit_char (Suc 0) = CHR ''1''"
  by (simp_all add: digit_char_def char_of_def bit_Suc_0_iff)

lemma toFixed_zero: "toFixed (Finite 0) = RStr ''0.00''"
  by (simp add: show_nat.simps digit_chars)

text \<open>Whatever \<^verbatim>\<open>toFixed\<close> prints begins with a digit, a minus sign, or is \<^verbatim>\<open>NaN\<close> or
  \<^verbatim>\<open>Infinity\<close>; it is never \<^verbatim>\<open>N/A\<close>.\<close>

lemma toFixed_Finite_first_char:
  "toFixed (Finite x) = RStr s \<Longrightarrow> \<exists>c t. s = c # t \<and> (c = CHR ''-'' \<or> is_digit c)"
proof -
  assume a: "toFixed (Finite x) = RStr s"
  define n where "n = nat \<lfloor>\<bar>x\<bar> * 100 + 1 / 2\<rfloor>"
  obtain c t where ct: "show_nat (n div 100) = c # t"
    using show_nat_nonempty [of "n div 100"] by (cases "show_nat (n div 100)") auto
  have d: "is_digit c" using hd_show_nat [OF ct] .
  show ?thesis
  proof (cases "10 ^ 21 \<le> \<bar>x\<bar>")
    case True
    then show ?thesis using a by simp
  next
    case False
    then show ?thesis using a ct d
      by (cases "x < 0") (auto simp: Let_def n_def)
  qed
qed

lemma toFixed_not_NA: "toFixed v \<noteq> RStr ''N/A''"
proof (cases v)
  case (Finite x)
  show ?thesis
  proof
    assume "toFixed v = RStr ''N/A''"
    then have "toFixed (Finite x) = RStr ''N/A''" using Finite by simp
    from toFixed_Finite_first_char [OF this]
    show False by (simp add: is_digit_def)
  qed
qed simp_all

section \<open>Cumulative distance\<close>

lemma array_get_inside:
  "0 \<le> i \<Longrightarrow> i < int (length xs) \<Longrightarrow> array_get xs i = Some (xs ! nat i)"
  by (simp add: array_get_def)

lemma array_get_outside:
  "i < 0 \<or> int (length xs) \<le> i \<Longrightarrow> array_get xs i = None"
  by (auto simp: array_get_def)

text \<open>Within the route the loop ends with a number.\<close>

lemma total_loop_returns:
  "1 \<le> i \<Longrightarrow> index \<le> int (length route) - 1 \<Longrightarrow>
   \<exists>d. total_loop rt route index i acc = Inr d"
proof (induction rt route index i acc rule: total_loop.induct)
  case (1 rt route index i acc)
  show ?case
  proof (cases "i \<le> index")
    case False
    then show ?thesis by (subst total_loop.simps) simp
  next
    case True
    have p: "array_get route (i - 1) = Some (route ! nat (i - 1))"
      using True 1(2,3) by (intro array_get_inside) simp_all
    have q: "array_get route i = Some (route ! nat i)"
      using True 1(2,3) by (intro array_get_inside) simp_all
    have "\<exists>d. total_loop rt route index (i + 1)
        (num_add rt acc
           (calculateDistanceKm rt (latitude (route ! nat (i - 1))) (longitude (route ! nat (i - 1)))
              (latitude (route ! nat i)) (longitude (route ! nat i)))) = Inr d"
      using 1(1) [OF True p q] 1(2,3) by simp
    then show ?thesis
      by (subst total_loop.simps) (simp add: True p q)
  qed
qed

text \<open>Past the end of the route it ends with the TypeError.\<close>

lemma total_loop_throws:
  "1 \<le> i \<Longrightarrow> i \<le> index \<Longrightarrow> int (length route) - 1 < index \<Longrightarrow>
   total_loop rt route index i acc = Inl TypeError"
proof (induction rt route index i acc rule: total_loop.induct)
  case (1 rt route index i acc)
  show ?case
  proof (cases "array_get route (i - 1)")
    case None
    then show ?thesis using 1(3) by (subst total_loop.simps) simp
  next
    case (Some p)
    note p = this
    show ?thesis
    proof (cases "array_get route i")
      case None
      then show ?thesis using 1(3) p by (subst total_loop.simps) simp
    next
      case (Some q)
      then have "i < int (length route)"
        by (simp add: array_get_def split: if_splits)
      then have "i + 1 \<le> index" using 1(4) by simp
      then have "total_loop rt route index (i + 1)
          (num_add rt acc
             (calculateDistanceKm rt (latitude p) (longitude p) (latitude q) (longitude q))) =
          Inl TypeError"
        using 1(1) [OF 1(3) p Some] 1(2,4) by simp
      then show ?thesis using 1(3) p Some by (subst total_loop.simps) simp
    qed
  qed
qed

text \<open>On a route of two points the distance up to index 1 is the sum of 0 and the distance
  between the points, printed by \<^verbatim>\<open>toFixed\<close>.\<close>

lemma calculateTotalDistance_two_points:
  "calculateTotalDistance rt (Some [p, q]) 1 =
     Inr (toFixed (num_add rt (Finite 0) (pointDistanceKm rt p q)))"
  by (simp add: calculateTotalDistance_def total_loop.simps array_get_def pointDistanceKm_def)

text \<open>
  C9: \<open>calculateTotalDistance\<close> on a non-zero index greater than \<open>len(route) - 1\<close> (any
  non-zero index on an empty array included) reads a missing element and fails with a
  TypeError; for \<open>0 \<le> index \<le> len(route) - 1\<close> it returns a value.  This holds whatever
  the arithmetic of the runtime.
\<close>

theorem calculateTotalDistance_fails_iff:
  "(index \<noteq> 0 \<and> int (length route) - 1 < index \<longrightarrow>
      calculateTotalDistance rt (Some route) index = Inl TypeError) \<and>
   (0 \<le> index \<and> index \<le> int (length route) - 1 \<longrightarrow>
      (\<exists>r. calculateTotalDistance rt (Some route) index = Inr r))"
proof -
  have "calculateTotalDistance rt (Some route) index = Inl TypeError"
    if "index \<noteq> 0" "int (length route) - 1 < index"
  proof -
    have "1 \<le> index" using that by simp
    then show ?thesis
      using total_loop_throws [of 1 index route rt "Finite 0"] that
      by (simp add: calculateTotalDistance_def)
  qed
  moreover have "\<exists>r. calculateTotalDistance rt (Some route) index = Inr r"
    if "0 \<le> index" "index \<le> int (length route) - 1"
  proof (cases "index = 0")
    case True
    then show ?thesis by (simp add: calculateTotalDistance_def)
  next
    case False
    then have "1 \<le> (1 :: int)" "index \<le> int (length route) - 1" using that by simp_all
    from total_loop_returns [OF this, of rt "Finite 0"]
    obtain d where "total_loop rt route index 1 (Finite 0) = Inr d" by blast
    then show ?thesis using False by (simp add: calculateTotalDistance_def)
  qed
  ultimately show ?thesis by blast
qed

text \<open>Below zero the loop body is never entered, and the sum of no distances is printed.\<close>

lemma calculateTotalDistance_negative_index:
  "index < 0 \<Longrightarrow> calculateTotalDistance rt (Some route) index = Inr (RStr ''0.00'')"
  by (simp add: calculateTotalDistance_def total_loop.simps show_nat.simps digit_chars)

section \<open>Speed\<close>

lemma double_rt_ops:
  "num_add double_rt = ieee_add" "num_sub double_rt = ieee_sub"
  "num_mul double_rt = ieee_mul" "num_div double_rt = ieee_div"
  "Math_sin double_rt = ieee_sin" "Math_cos double_rt = ieee_cos"
  "Math_sqrt double_rt = ieee_sqrt" "Math_atan2 double_rt = ieee_atan2"
  "Math_PI double_rt = Finite (884279719003555 / 2 ^ 48)"
  by (simp_all add: double_rt_def)

lemma calculateSpeedKmH_in_range:
  assumes "1 < length route" "1 \<le> index" "index \<le> int (length route) - 1"
  shows "calculateSpeedKmH rt getTime index (Some route) =
     (case (getTime (timestamp (route ! nat index)), getTime (timestamp (route ! nat (index - 1)))) of
        (Some tc, Some tp) \<Rightarrow>
          if num_le (num_div rt (num_sub rt (Finite (of_int tc)) (Finite (of_int tp)))
                       (Finite (1000 * 60 * 60))) (Finite 0)
          then Inr (RStr ''N/A'')
          else Inr (toFixed
                 (num_div rt (pointDistanceKm rt (route ! nat (index - 1)) (route ! nat index))
                    (num_div rt (num_sub rt (Finite (of_int tc)) (Finite (of_int tp)))
                       (Finite (1000 * 60 * 60)))))
      | _ \<Rightarrow> Inr (RStr ''NaN''))"
proof -
  have p: "array_get route (index - 1) = Some (route ! nat (index - 1))"
    using assms by (intro array_get_inside) simp_all
  have q: "array_get route index = Some (route ! nat index)"
    using assms by (intro array_get_inside) simp_all
  show ?thesis
    using assms
    by (simp add: calculateSpeedKmH_def p q pointDistanceKm_def Let_def split: option.splits)
qed

text \<open>
  C5: for every route with more than one point and every index from 1 within bounds,
  \<open>calculateSpeedKmH\<close>, computing in doubles, returns \<^verbatim>\<open>N/A\<close> exactly when the elapsed time
  between the two timestamps is at most 0, and it returns without raising.
\<close>

theorem speed_not_available_iff:
  assumes "1 < length route" "1 \<le> index" "index \<le> int (length route) - 1"
  shows "(calculateSpeedKmH double_rt getTime index (Some route) = Inr (RStr ''N/A'') \<longleftrightarrow>
            (\<exists>h. spec_elapsedHours getTime (route ! nat (index - 1)) (route ! nat index) = Some h \<and>
                 h \<le> 0)) \<and>
         (\<exists>r. calculateSpeedKmH double_rt getTime index (Some route) = Inr r)"
proof -
  have e: "(\<exists>h. x = h * 3600000 \<and> h \<le> 0) \<longleftrightarrow> x \<le> 0" for x :: real
  proof
    assume "\<exists>h. x = h * 3600000 \<and> h \<le> 0"
    then show "x \<le> 0" by (auto simp: mult_le_0_iff)
  next
    assume "x \<le> 0"
    then show "\<exists>h. x = h * 3600000 \<and> h \<le> 0"
      by (intro exI [of _ "x / 3600000"]) (simp add: divide_le_0_iff)
  qed
  have t: "num_le (num_div double_rt (num_sub double_rt (Finite (of_int tc)) (Finite (of_int tp)))
               (Finite (1000 * 60 * 60))) (Finite 0) \<longleftrightarrow> tc - tp \<le> 0" for tc tp :: int
    unfolding double_rt_ops double_time_test by (simp add: divide_le_0_iff del: of_int_diff)
  show ?thesis
    unfolding calculateSpeedKmH_in_range [OF assms] spec_elapsedHours_def
    by (cases "getTime (timestamp (route ! nat index))";
        cases "getTime (timestamp (route ! nat (index - 1)))")
      (simp_all only: t, simp_all add: toFixed_not_NA e del: of_int_diff)
qed

text \<open>
  C10: for every route with more than one point and every index outside
  \<open>[0, len(route) - 1]\<close>, negative or past the last index, \<open>calculateSpeedKmH\<close> returns
  \<^verbatim>\<open>0.00\<close> and does not fail.
\<close>

theorem calculateSpeedKmH_out_of_range:
  assumes "1 < length route" "index < 0 \<or> int (length route) - 1 < index"
  shows "calculateSpeedKmH rt getTime index (Some route) = Inr (RStr ''0.00'')"
proof -
  have "array_get route index = None"
    using assms(2) by (intro array_get_outside) auto
  then show ?thesis
    by (simp add: calculateSpeedKmH_def split: option.splits)
qed

section \<open>The animated marker\<close>

text \<open>While the progress is below 1 the marker is at the interpolated position and the
  next frame is requested.\<close>

lemma animate_running:
  assumes "num_lt (progress_at rt a currentTime) (Finite 1)"
  shows "animate rt a currentTime s =
     request_frame a (s\<lparr>marker := Some (interpolated rt a (progress_at rt a currentTime))\<rparr>)"
  using assms by (simp add: animate_def Let_def)

lemma animate_finished:
  assumes "progress_at rt a currentTime = Finite 1"
  shows "animate rt a currentTime s =
     s\<lparr>marker := Some (endLatLng a), lastPosition := Some (target a)\<rparr>"
  using assms by (simp add: animate_def Let_def)

text \<open>
  C7: whenever an interpolation transition runs to completion (\<open>progress\<close> has reached 1),
  the marker's final position is the exact target \<open>endLatLng\<close>, whatever the arithmetic of
  the runtime makes of the last interpolated position; the target becomes the last
  position and no further frame is requested.
\<close>

theorem animate_settles_on_target:
  assumes "progress_at rt a currentTime = Finite 1"
  shows "marker (animate rt a currentTime s) = Some (endLatLng a) \<and>
         lastPosition (animate rt a currentTime s) = Some (target a) \<and>
         frames (animate rt a currentTime s) = frames s \<and>
         frameRef (animate rt a currentTime s) = frameRef s"
  by (simp add: animate_finished [OF assms])

text \<open>
  The branch for the first position: when the effect finds no last position it sets the
  marker directly and requests no frame.
\<close>

lemma effect_without_lastPosition:
  assumes "marker s = Some m" "lastPosition s = None"
  shows "effect (Some p) dur now s = s\<lparr>marker := Some p, lastPosition := Some p\<rparr>"
  using assms by (simp add: effect_def)

text \<open>That branch is not taken on the first call: \<^verbatim>\<open>useRef(position)\<close> has already stored
  the position.\<close>

lemma mounted_lastPosition: "lastPosition (mounted (Some p)) = Some p"
  by (simp add: mounted_def)

text \<open>
  C8 says that on the first call the marker jumps to the target with no animation.  The
  first effect run after mounting with a position takes the animated path instead: it
  requests an animation frame for a transition from the marker's position to the target
  and pans the map.
\<close>

theorem first_position_is_animated:
  "effect (Some first_position) (Finite 2000) (Finite 0) (mounted (Some first_position)) =
     (mounted (Some first_position))
       \<lparr>frameRef := Some 1,
        frames := [(1, \<lparr>startLatLng = first_position, endLatLng = first_position,
                        startTime = Finite 0, target = first_position,
                        duration = Finite 2000\<rparr>)],
        nextHandle := 2, panTarget := Some first_position\<rparr>"
  by (simp add: effect_def mounted_def request_frame_def)

text \<open>A whole transition: the effect starts it, and a frame at which the progress has
  reached 1 settles the marker on the target.\<close>

lemma transition_completes:
  assumes "marker s = Some m" "lastPosition s = Some l" "frames s = []"
    and "progress_at rt
           \<lparr>startLatLng = m, endLatLng = p, startTime = now, target = p, duration = dur\<rparr> t =
         Finite 1"
  shows "marker (frame rt t (effect (Some p) dur now s)) = Some p \<and>
         lastPosition (frame rt t (effect (Some p) dur now s)) = Some p \<and>
         frames (frame rt t (effect (Some p) dur now s)) = []"
proof -
  define a where "a = \<lparr>startLatLng = m, endLatLng = p, startTime = now, target = p, duration = dur\<rparr>"
  have f: "frames (effect (Some p) dur now s) = [(nextHandle s, a)]"
    using assms(1-3)
    by (simp add: effect_def request_frame_def cancelAnimationFrame_def a_def split: option.splits)
  have d: "progress_at rt a t = Finite 1" using assms(4) by (simp add: a_def)
  show ?thesis
    using animate_finished [OF d, of "(effect (Some p) dur now s)\<lparr>frames := []\<rparr>"]
    by (simp add: frame_def f a_def)
qed

section \<open>The distance from (8, 0) to (-8, 180) in doubles\<close>

subsection \<open>Bounds on sine and cosine\<close>

text \<open>Sine and cosine lie within the Lagrange remainder of their Maclaurin polynomials.\<close>

lemma sum_upto_13:
  "(\<Sum>m<13. f m) =
     f 0 + f 1 + f 2 + f 3
        + f 4 + f 5 + f 6 + f 7
        + f 8 + f 9 + f 10 + f 11
        + f 12"
  for f :: "nat \<Rightarrow> real"
  by (simp add: eval_nat_numeral)

lemma sin_coeffs_13:
  "sin_coeff 0 = 0"
  "sin_coeff 1 = 1"
  "sin_coeff 2 = 0"
  "sin_coeff 3 = - 1 / 6"
  "sin_coeff 4 = 0"
  "sin_coeff 5 = 1 / 120"
  "sin_coeff 6 = 0"
  "sin_coeff 7 = - 1 / 5040"
  "sin_coeff 8 = 0"
  "sin_coeff 9 = 1 / 362880"
  "sin_coeff 10 = 0"
  "sin_coeff 11 = - 1 / 39916800"
  "sin_coeff 12 = 0"
  by (simp_all add: sin_coeff_def fact_numeral)

lemma sin_approx_13:
  "\<bar>sin x -
      (x - x ^ 3 / 6 + x ^ 5 / 120 - x ^ 7 / 5040
        + x ^ 9 / 362880 - x ^ 11 / 39916800)\<bar>
     \<le> \<bar>x\<bar> ^ 13 / 6227020800" for x :: real
proof -
  have s: "(\<Sum>m<13. sin_coeff m * x ^ m) =
      x - x ^ 3 / 6 + x ^ 5 / 120 - x ^ 7 / 5040
        + x ^ 9 / 362880 - x ^ 11 / 39916800"
    unfolding sum_upto_13 sin_coeffs_13 by simp
  have "inverse (fact 13) = (1 / 6227020800 :: real)"
    by (simp add: fact_numeral)
  then have f: "inverse (fact 13) * \<bar>x\<bar> ^ 13 = \<bar>x\<bar> ^ 13 / 6227020800"
    by simp
  have "\<bar>sin x - (\<Sum>m<13. sin_coeff m * x ^ m)\<bar> \<le> inverse (fact 13) * \<bar>x\<bar> ^ 13"
    by (rule Maclaurin_sin_bound)
  then show ?thesis unfolding s f .
qed

lemma sum_upto_14:
  "(\<Sum>m<14. f m) =
     f 0 + f 1 + f 2 + f 3
        + f 4 + f 5 + f 6 + f 7
        + f 8 + f 9 + f 10 + f 11
        + f 12 + f 13"
  for f :: "nat \<Rightarrow> real"
  by (simp add: eval_nat_numeral)

lemma cos_coeffs_14:
  "cos_coeff 0 = 1"
  "cos_coeff 1 = 0"
  "cos_coeff 2 = - 1 / 2"
  "cos_coeff 3 = 0"
  "cos_coeff 4 = 1 / 24"
  "cos_coeff 5 = 0"
  "cos_coeff 6 = - 1 / 720"
  "cos_coeff 7 = 0"
  "cos_coeff 8 = 1 / 40320"
  "cos_coeff 9 = 0"
  "cos_coeff 10 = - 1 / 3628800"
  "cos_coeff 11 = 0"
  "cos_coeff 12 = 1 / 479001600"
  "cos_coeff 13 = 0"
  by (simp_all add: cos_coeff_def fact_numeral)

lemma remainder_bound: "\<bar>c\<bar> \<le> 1 \<Longrightarrow> 0 \<le> y \<Longrightarrow> 0 < d \<Longrightarrow> \<bar>(c / d) * y\<bar> \<le> y / d"
  for c y d :: real
proof -
  assume a: "\<bar>c\<bar> \<le> 1" "0 \<le> y" "0 < d"
  have "\<bar>(c / d) * y\<bar> = \<bar>c\<bar> * (y / d)"
    using a by (simp add: abs_mult)
  also have "\<dots> \<le> 1 * (y / d)"
    using a by (intro mult_right_mono) simp_all
  finally show ?thesis by simp
qed

lemma cos_approx_14:
  fixes x :: real
  assumes "0 < x"
  shows "\<bar>cos x -
      (1 - x ^ 2 / 2 + x ^ 4 / 24 - x ^ 6 / 720
        + x ^ 8 / 40320 - x ^ 10 / 3628800 + x ^ 12 / 479001600)\<bar>
     \<le> x ^ 14 / 87178291200"
proof -
  have s: "(\<Sum>m<14. cos_coeff m * x ^ m) =
      1 - x ^ 2 / 2 + x ^ 4 / 24 - x ^ 6 / 720
        + x ^ 8 / 40320 - x ^ 10 / 3628800 + x ^ 12 / 479001600"
    unfolding sum_upto_14 cos_coeffs_14 by simp
  have f: "fact 14 = (87178291200 :: real)"
    by (simp add: fact_numeral)
  obtain t where "cos x = (\<Sum>m<14. cos_coeff m * x ^ m) + (cos (t + 1 / 2 * real 14 * pi) / fact 14) * x ^ 14"
    using Maclaurin_cos_expansion2 [of x 14] assms by auto
  then have e: "cos x - (\<Sum>m<14. cos_coeff m * x ^ m) = (cos (t + 1 / 2 * real 14 * pi) / fact 14) * x ^ 14"
    by (simp only: add_diff_cancel_left')
  have "\<bar>cos x - (\<Sum>m<14. cos_coeff m * x ^ m)\<bar> \<le> x ^ 14 / fact 14"
    unfolding e using assms by (intro remainder_bound) simp_all
  then show ?thesis unfolding s f .
qed

lemma sum_upto_23:
  "(\<Sum>m<23. f m) =
     f 0 + f 1 + f 2 + f 3
        + f 4 + f 5 + f 6 + f 7
        + f 8 + f 9 + f 10 + f 11
        + f 12 + f 13 + f 14 + f 15
        + f 16 + f 17 + f 18 + f 19
        + f 20 + f 21 + f 22"
  for f :: "nat \<Rightarrow> real"
  by (simp add: eval_nat_numeral)

lemma sin_coeffs_23:
  "sin_coeff 0 = 0"
  "sin_coeff 1 = 1"
  "sin_coeff 2 = 0"
  "sin_coeff 3 = - 1 / 6"
  "sin_coeff 4 = 0"
  "sin_coeff 5 = 1 / 120"
  "sin_coeff 6 = 0"
  "sin_coeff 7 = - 1 / 5040"
  "sin_coeff 8 = 0"
  "sin_coeff 9 = 1 / 362880"
  "sin_coeff 10 = 0"
  "sin_coeff 11 = - 1 / 39916800"
  "sin_coeff 12 = 0"
  "sin_coeff 13 = 1 / 6227020800"
  "sin_coeff 14 = 0"
  "sin_coeff 15 = - 1 / 1307674368000"
  "sin_coeff 16 = 0"
  "sin_coeff 17 = 1 / 355687428096000"
  "sin_coeff 18 = 0"
  "sin_coeff 19 = - 1 / 121645100408832000"
  "sin_coeff 20 = 0"
  "sin_coeff 21 = 1 / 51090942171709440000"
  "sin_coeff 22 = 0"
  by (simp_all add: sin_coeff_def fact_numeral)

lemma sin_approx_23:
  "\<bar>sin x -
      (x - x ^ 3 / 6 + x ^ 5 / 120 - x ^ 7 / 5040
        + x ^ 9 / 362880 - x ^ 11 / 39916800 + x ^ 13 / 6227020800 - x ^ 15 / 1307674368000
        + x ^ 17 / 355687428096000 - x ^ 19 / 121645100408832000 + x ^ 21 / 51090942171709440000)\<bar>
     \<le> \<bar>x\<bar> ^ 23 / 25852016738884976640000" for x :: real
proof -
  have s: "(\<Sum>m<23. sin_coeff m * x ^ m) =
      x - x ^ 3 / 6 + x ^ 5 / 120 - x ^ 7 / 5040
        + x ^ 9 / 362880 - x ^ 11 / 39916800 + x ^ 13 / 6227020800 - x ^ 15 / 1307674368000
        + x ^ 17 / 355687428096000 - x ^ 19 / 121645100408832000 + x ^ 21 / 51090942171709440000"
    unfolding sum_upto_23 sin_coeffs_23 by simp
  have "inverse (fact 23) = (1 / 25852016738884976640000 :: real)"
    by (simp add: fact_numeral)
  then have f: "inverse (fact 23) * \<bar>x\<bar> ^ 23 = \<bar>x\<bar> ^ 23 / 25852016738884976640000"
    by simp
  have "\<bar>sin x - (\<Sum>m<23. sin_coeff m * x ^ m)\<bar> \<le> inverse (fact 23) * \<bar>x\<bar> ^ 23"
    by (rule Maclaurin_sin_bound)
  then show ?thesis unfolding s f .
qed

subsection \<open>The operations of the runtime\<close>

lemma ieee_mul_NaN: "ieee_mul x NaN = NaN"
  by (cases x) simp_all

lemma ieee_add_NaN: "ieee_add x NaN = NaN"
  by (cases x) simp_all

lemma ieee_div_NaN: "ieee_div NaN y = NaN"
  by (cases y) simp_all

lemma ieee_atan2_NaN: "ieee_atan2 y NaN = NaN"
  by (simp add: ieee_atan2_def)

subsection \<open>The steps of the computation\<close>

text \<open>Each step of \<^verbatim>\<open>calculateDistanceKm(8, 0, -8, 180)\<close> is an exact operation followed by
  one rounding; the lemmas give the double that results, as a fraction and in decimals.\<close>

text \<open>\<^verbatim>\<open>Math.PI / 180\<close> is \<^verbatim>\<open>0.017453292519943295\<close>.\<close>

lemma double_pi_180:
  "ieee_div (Finite (884279719003555 / 2 ^ 48)) (Finite 180) =
     Finite (5030569068109113 / 2 ^ 58)"
proof -
  have "fl ((884279719003555 / 2 ^ 48) / 180) = Finite (real_of_int 5030569068109113 / 2 ^ 58)"
    by (rule fl_round) simp_all
  then show ?thesis by simp
qed

text \<open>\<^verbatim>\<open>lat2 - lat1\<close> is \<^verbatim>\<open>-16\<close>.\<close>

lemma double_lat_diff:
  "ieee_sub (Finite (- 8)) (Finite 8) =
     Finite (- 16)"
proof -
  have "fl ((- 8) - 8) = Finite (real_of_int (- 4503599627370496) / 2 ^ 48)"
    by (rule fl_round) simp_all
  then show ?thesis by (simp add: ieee_sub_def)
qed

text \<open>\<^verbatim>\<open>dLat\<close> is \<^verbatim>\<open>-0.2792526803190927\<close>.\<close>

lemma double_dLat:
  "ieee_mul (Finite (- 16)) (Finite (5030569068109113 / 2 ^ 58)) =
     Finite (- (5030569068109113 / 2 ^ 54))"
proof -
  have "fl ((- 16) * (5030569068109113 / 2 ^ 58)) = Finite (real_of_int (- 5030569068109113) / 2 ^ 54)"
    by (rule fl_round) simp_all
  then show ?thesis by simp
qed

text \<open>\<^verbatim>\<open>dLat/2\<close> is \<^verbatim>\<open>-0.13962634015954636\<close>.\<close>

lemma double_half_dLat:
  "ieee_div (Finite (- (5030569068109113 / 2 ^ 54))) (Finite 2) =
     Finite (- (5030569068109113 / 2 ^ 55))"
proof -
  have "fl ((- (5030569068109113 / 2 ^ 54)) / 2) = Finite (real_of_int (- 5030569068109113) / 2 ^ 55)"
    by (rule fl_round) simp_all
  then show ?thesis by simp
qed

text \<open>\<^verbatim>\<open>toRad(lat1)\<close> is \<^verbatim>\<open>0.13962634015954636\<close>.\<close>

lemma double_lat1:
  "ieee_mul (Finite 8) (Finite (5030569068109113 / 2 ^ 58)) =
     Finite (5030569068109113 / 2 ^ 55)"
proof -
  have "fl (8 * (5030569068109113 / 2 ^ 58)) = Finite (real_of_int 5030569068109113 / 2 ^ 55)"
    by (rule fl_round) simp_all
  then show ?thesis by simp
qed

text \<open>\<^verbatim>\<open>toRad(lat2)\<close> is \<^verbatim>\<open>-0.13962634015954636\<close>.\<close>

lemma double_lat2:
  "ieee_mul (Finite (- 8)) (Finite (5030569068109113 / 2 ^ 58)) =
     Finite (- (5030569068109113 / 2 ^ 55))"
proof -
  have "fl ((- 8) * (5030569068109113 / 2 ^ 58)) = Finite (real_of_int (- 5030569068109113) / 2 ^ 55)"
    by (rule fl_round) simp_all
  then show ?thesis by simp
qed

text \<open>\<^verbatim>\<open>lon2 - lon1\<close> is \<^verbatim>\<open>180\<close>.\<close>

lemma double_lon_diff:
  "ieee_sub (Finite 180) (Finite 0) =
     Finite 180"
proof -
  have "fl (180 - 0) = Finite (real_of_int 6333186975989760 / 2 ^ 45)"
    by (rule fl_round) simp_all
  then show ?thesis by (simp add: ieee_sub_def)
qed

text \<open>\<^verbatim>\<open>dLon\<close> is \<^verbatim>\<open>3.141592653589793\<close>, the double \<^verbatim>\<open>Math.PI\<close>.\<close>

lemma double_dLon:
  "ieee_mul (Finite 180) (Finite (5030569068109113 / 2 ^ 58)) =
     Finite (884279719003555 / 2 ^ 48)"
proof -
  have "fl (180 * (5030569068109113 / 2 ^ 58)) = Finite (real_of_int 7074237752028440 / 2 ^ 51)"
    by (rule fl_round) simp_all
  then show ?thesis by simp
qed

text \<open>\<^verbatim>\<open>dLon/2\<close> is \<^verbatim>\<open>1.5707963267948966\<close>.\<close>

lemma double_half_dLon:
  "ieee_div (Finite (884279719003555 / 2 ^ 48)) (Finite 2) =
     Finite (884279719003555 / 2 ^ 49)"
proof -
  have "fl ((884279719003555 / 2 ^ 48) / 2) = Finite (real_of_int 7074237752028440 / 2 ^ 52)"
    by (rule fl_round) simp_all
  then show ?thesis by simp
qed

text \<open>The sine and the cosine of 8 degrees, and their doubles.\<close>

lemma sin_lat_bounds:
  "5014239404989977 - 1 / 2 < sin (5030569068109113 / 2 ^ 55) * (2 :: real) ^ 55"
  "sin (5030569068109113 / 2 ^ 55) * (2 :: real) ^ 55 < 5014239404989977 + 1 / 2"
proof -
  define x :: real where "x = 5030569068109113 / 2 ^ 55"
  define S where "S =
      x - x ^ 3 / 6 + x ^ 5 / 120 - x ^ 7 / 5040
        + x ^ 9 / 362880 - x ^ 11 / 39916800"
  define E where "E = \<bar>x\<bar> ^ 13 / 6227020800"
  have b: "\<bar>sin x - S\<bar> \<le> E"
    unfolding S_def E_def by (rule sin_approx_13)
  have e: "E * 2 ^ 55 < 1 / 1000"
    unfolding E_def x_def by (simp add: power_divide)
  have l: "5014239404989977 - 1 / 2 + 1 / 1000 < S * 2 ^ 55"
    unfolding S_def x_def by (simp add: power_divide)
  have u: "S * 2 ^ 55 < 5014239404989977 + 1 / 2 - 1 / 1000"
    unfolding S_def x_def by (simp add: power_divide)
  have "5014239404989977 - 1 / 2 < sin x * 2 ^ 55"
    using b e l by simp
  then show "5014239404989977 - 1 / 2 < sin (5030569068109113 / 2 ^ 55) * (2 :: real) ^ 55"
    by (simp add: x_def)
  have "sin x * 2 ^ 55 < 5014239404989977 + 1 / 2"
    using b e u by simp
  then show "sin (5030569068109113 / 2 ^ 55) * (2 :: real) ^ 55 < 5014239404989977 + 1 / 2"
    by (simp add: x_def)
qed

lemma double_sin_half_dLat: "ieee_sin (Finite (- (5030569068109113 / 2 ^ 55))) = Finite (- (5014239404989977 / 2 ^ 55))"
proof -
  define y :: real where "y = sin (5030569068109113 / 2 ^ 55)"
  have lo: "5014239404989977 - 1 / 2 < y * 2 ^ 55" and hi: "y * 2 ^ 55 < 5014239404989977 + 1 / 2"
    unfolding y_def by (rule sin_lat_bounds)+
  have v: "sin (- (5030569068109113 / 2 ^ 55)) = - y"
    by (simp add: y_def)
  have "fl (- y) = Finite (real_of_int (- 5014239404989977) / 2 ^ 55)"
  proof (rule fl_round)
    show "2 ^ 52 \<le> \<bar>- y\<bar> * 2 ^ 55" using lo by simp
    show "\<bar>- y\<bar> * 2 ^ 55 < 2 ^ 53" using lo hi by simp
    show "real_of_int (- 5014239404989977) - 1 / 2 < - y * 2 ^ 55" using lo hi by simp
    show "- y * 2 ^ 55 < real_of_int (- 5014239404989977) + 1 / 2" using lo hi by simp
  qed simp
  then have "fl (- y) = Finite (- (5014239404989977 / 2 ^ 55))" by simp
  moreover have "ieee_sin (Finite (- (5030569068109113 / 2 ^ 55))) = fl (- y)"
    by (simp only: ieee_sin.simps v)
  ultimately show ?thesis by (simp only:)
qed

lemma cos_lat_bounds:
  "8919541810762874 - 1 / 2 < cos (5030569068109113 / 2 ^ 55) * (2 :: real) ^ 53"
  "cos (5030569068109113 / 2 ^ 55) * (2 :: real) ^ 53 < 8919541810762874 + 1 / 2"
proof -
  define x :: real where "x = 5030569068109113 / 2 ^ 55"
  define S where "S =
      1 - x ^ 2 / 2 + x ^ 4 / 24 - x ^ 6 / 720
        + x ^ 8 / 40320 - x ^ 10 / 3628800 + x ^ 12 / 479001600"
  define E where "E = x ^ 14 / 87178291200"
  have pos: "0 < x" by (simp add: x_def)
  have b: "\<bar>cos x - S\<bar> \<le> E"
    unfolding S_def E_def using pos by (rule cos_approx_14)
  have e: "E * 2 ^ 53 < 1 / 1000"
    unfolding E_def x_def by (simp add: power_divide)
  have l: "8919541810762874 - 1 / 2 + 1 / 1000 < S * 2 ^ 53"
    unfolding S_def x_def by (simp add: power_divide)
  have u: "S * 2 ^ 53 < 8919541810762874 + 1 / 2 - 1 / 1000"
    unfolding S_def x_def by (simp add: power_divide)
  have "8919541810762874 - 1 / 2 < cos x * 2 ^ 53"
    using b e l by simp
  then show "8919541810762874 - 1 / 2 < cos (5030569068109113 / 2 ^ 55) * (2 :: real) ^ 53"
    by (simp add: x_def)
  have "cos x * 2 ^ 53 < 8919541810762874 + 1 / 2"
    using b e u by simp
  then show "cos (5030569068109113 / 2 ^ 55) * (2 :: real) ^ 53 < 8919541810762874 + 1 / 2"
    by (simp add: x_def)
qed

lemma double_cos_lat1: "ieee_cos (Finite (5030569068109113 / 2 ^ 55)) = Finite (4459770905381437 / 2 ^ 52)"
proof -
  define y :: real where "y = cos (5030569068109113 / 2 ^ 55)"
  have lo: "8919541810762874 - 1 / 2 < y * 2 ^ 53" and hi: "y * 2 ^ 53 < 8919541810762874 + 1 / 2"
    unfolding y_def by (rule cos_lat_bounds)+
  have v: "cos (5030569068109113 / 2 ^ 55) =  y"
    by (simp add: y_def)
  have "fl ( y) = Finite (real_of_int (8919541810762874) / 2 ^ 53)"
  proof (rule fl_round)
    show "2 ^ 52 \<le> \<bar> y\<bar> * 2 ^ 53" using lo by simp
    show "\<bar> y\<bar> * 2 ^ 53 < 2 ^ 53" using lo hi by simp
    show "real_of_int (8919541810762874) - 1 / 2 <  y * 2 ^ 53" using lo hi by simp
    show " y * 2 ^ 53 < real_of_int (8919541810762874) + 1 / 2" using lo hi by simp
  qed simp
  then have "fl ( y) = Finite (4459770905381437 / 2 ^ 52)" by simp
  moreover have "ieee_cos (Finite (5030569068109113 / 2 ^ 55)) = fl ( y)"
    by (simp only: ieee_cos.simps v)
  ultimately show ?thesis by (simp only:)
qed

lemma double_cos_lat2: "ieee_cos (Finite (- (5030569068109113 / 2 ^ 55))) = Finite (4459770905381437 / 2 ^ 52)"
proof -
  define y :: real where "y = cos (5030569068109113 / 2 ^ 55)"
  have lo: "8919541810762874 - 1 / 2 < y * 2 ^ 53" and hi: "y * 2 ^ 53 < 8919541810762874 + 1 / 2"
    unfolding y_def by (rule cos_lat_bounds)+
  have v: "cos (- (5030569068109113 / 2 ^ 55)) =  y"
    by (simp add: y_def)
  have "fl ( y) = Finite (real_of_int (8919541810762874) / 2 ^ 53)"
  proof (rule fl_round)
    show "2 ^ 52 \<le> \<bar> y\<bar> * 2 ^ 53" using lo by simp
    show "\<bar> y\<bar> * 2 ^ 53 < 2 ^ 53" using lo hi by simp
    show "real_of_int (8919541810762874) - 1 / 2 <  y * 2 ^ 53" using lo hi by simp
    show " y * 2 ^ 53 < real_of_int (8919541810762874) + 1 / 2" using lo hi by simp
  qed simp
  then have "fl ( y) = Finite (4459770905381437 / 2 ^ 52)" by simp
  moreover have "ieee_cos (Finite (- (5030569068109113 / 2 ^ 55))) = fl ( y)"
    by (simp only: ieee_cos.simps v)
  ultimately show ?thesis by (simp only:)
qed

text \<open>The sine of the double nearest to \<open>pi / 2\<close> is so close to 1 that its double is 1.\<close>

lemma double_sin_half_dLon: "ieee_sin (Finite (884279719003555 / 2 ^ 49)) = Finite 1"
proof -
  define x :: real where "x = 884279719003555 / 2 ^ 49"
  define S where "S =
      x - x ^ 3 / 6 + x ^ 5 / 120 - x ^ 7 / 5040
        + x ^ 9 / 362880 - x ^ 11 / 39916800 + x ^ 13 / 6227020800 - x ^ 15 / 1307674368000
        + x ^ 17 / 355687428096000 - x ^ 19 / 121645100408832000 + x ^ 21 / 51090942171709440000"
  define E where "E = \<bar>x\<bar> ^ 23 / 25852016738884976640000"
  have b: "\<bar>sin x - S\<bar> \<le> E"
    unfolding S_def E_def by (rule sin_approx_23)
  have e: "E * 2 ^ 54 < 1 / 10"
    unfolding E_def x_def by (simp add: power_divide)
  have l: "2 ^ 54 - 1 / 10 < S * 2 ^ 54"
    unfolding S_def x_def by (simp add: power_divide)
  have lo: "2 ^ 54 - 1 < sin x * 2 ^ 54"
    using b e l by simp
  have "fl (sin x) = Finite 1"
  proof (cases "sin x = 1")
    case True
    then show ?thesis by (simp add: fl_one)
  next
    case False
    then have hi: "sin x < 1" by (simp add: less_le)
    have "fl (sin x) = Finite (real_of_int (2 ^ 53) / 2 ^ 53)"
    proof (rule fl_round)
      show "2 ^ 52 \<le> \<bar>sin x\<bar> * 2 ^ 53" using lo by simp
      show "\<bar>sin x\<bar> * 2 ^ 53 < 2 ^ 53" using lo hi by simp
      show "real_of_int (2 ^ 53) - 1 / 2 < sin x * 2 ^ 53" using lo by simp
      show "sin x * 2 ^ 53 < real_of_int (2 ^ 53) + 1 / 2" using hi by simp
    qed simp
    then show ?thesis by simp
  qed
  then show ?thesis by (simp add: x_def)
qed

text \<open>\<^verbatim>\<open>Math.sin(dLat/2) * Math.sin(dLat/2)\<close> is \<^verbatim>\<open>0.019369152030840567\<close>.\<close>

lemma double_sin_squared:
  "ieee_mul (Finite (- (5014239404989977 / 2 ^ 55))) (Finite (- (5014239404989977 / 2 ^ 55))) =
     Finite (1395694493897217 / 2 ^ 56)"
proof -
  have "fl ((- (5014239404989977 / 2 ^ 55)) * (- (5014239404989977 / 2 ^ 55))) = Finite (real_of_int 5582777975588868 / 2 ^ 58)"
    by (rule fl_round) simp_all
  then show ?thesis by simp
qed

text \<open>\<^verbatim>\<open>Math.cos(toRad(lat1)) * Math.cos(toRad(lat2))\<close> is \<^verbatim>\<open>0.9806308479691596\<close>.\<close>

lemma double_cos_squared:
  "ieee_mul (Finite (4459770905381437 / 2 ^ 52)) (Finite (4459770905381437 / 2 ^ 52)) =
     Finite (8832737443003841 / 2 ^ 53)"
proof -
  have "fl ((4459770905381437 / 2 ^ 52) * (4459770905381437 / 2 ^ 52)) = Finite (real_of_int 8832737443003841 / 2 ^ 53)"
    by (rule fl_round) simp_all
  then show ?thesis by simp
qed

text \<open>Multiplied by \<^verbatim>\<open>Math.sin(dLon/2)\<close>, which is 1, it remains \<^verbatim>\<open>0.9806308479691596\<close>.\<close>

lemma double_cos_squared_id:
  "ieee_mul (Finite (8832737443003841 / 2 ^ 53)) (Finite 1) =
     Finite (8832737443003841 / 2 ^ 53)"
proof -
  have "fl ((8832737443003841 / 2 ^ 53) * 1) = Finite (real_of_int 8832737443003841 / 2 ^ 53)"
    by (rule fl_round) simp_all
  then show ?thesis by simp
qed

text \<open>The sum \<^verbatim>\<open>a\<close> is \<^verbatim>\<open>1.0000000000000002\<close>: the exact sum lies above the middle between 1 and the next
  double.\<close>

lemma double_a_sum:
  "ieee_add (Finite (1395694493897217 / 2 ^ 56)) (Finite (8832737443003841 / 2 ^ 53)) =
     Finite (4503599627370497 / 2 ^ 52)"
proof -
  have "fl ((1395694493897217 / 2 ^ 56) + (8832737443003841 / 2 ^ 53)) = Finite (real_of_int 4503599627370497 / 2 ^ 52)"
    by (rule fl_round) simp_all
  then show ?thesis by simp
qed

text \<open>\<^verbatim>\<open>1 - a\<close> is \<^verbatim>\<open>-2.220446049250313e-16\<close>.\<close>

lemma double_one_minus_a:
  "ieee_sub (Finite 1) (Finite (4503599627370497 / 2 ^ 52)) =
     Finite (- (1 / 2 ^ 52))"
proof -
  have "fl (1 - (4503599627370497 / 2 ^ 52)) = Finite (real_of_int (- 4503599627370496) / 2 ^ 104)"
    by (rule fl_round) simp_all
  then show ?thesis by (simp add: ieee_sub_def)
qed

subsection \<open>The result\<close>

text \<open>The term \<open>a\<close> of the formula comes out one unit in the last place above 1.\<close>

lemma double_haversine_a:
  "haversine_a double_rt (Finite 8) (Finite 0) (Finite (- 8)) (Finite 180) = Finite (4503599627370497 / 2 ^ 52)"
  by (simp only: haversine_a_def Let_def toRad_def double_rt_ops double_pi_180 double_lat_diff
      double_dLat double_half_dLat double_lat1 double_lat2 double_lon_diff double_dLon
      double_half_dLon double_sin_half_dLat double_cos_lat1 double_cos_lat2
      double_sin_half_dLon double_sin_squared double_cos_squared double_cos_squared_id
      double_a_sum)

lemma double_sqrt_one_minus_a: "ieee_sqrt (Finite (- (1 / 2 ^ 52))) = NaN"
  by simp

text \<open>So \<^verbatim>\<open>1 - a\<close> is negative, its square root is \<^verbatim>\<open>NaN\<close>, and so is the distance.\<close>

lemma double_distance_NaN:
  "calculateDistanceKm double_rt (Finite 8) (Finite 0) (Finite (- 8)) (Finite 180) = NaN"
  by (simp only: calculateDistanceKm_def Let_def double_haversine_a double_rt_ops
      double_one_minus_a double_sqrt_one_minus_a ieee_atan2_NaN ieee_mul_NaN)

section \<open>Two points at the same place\<close>

lemma double_toRad: "toRad double_rt (Finite d) = ieee_mul (Finite d) (Finite (5030569068109113 / 2 ^ 58))"
  by (simp only: toRad_def double_rt_ops double_pi_180)

lemma double_toRad_zero: "toRad double_rt (Finite 0) = Finite 0"
  by (simp add: double_toRad fl_zero)

lemma double_distance_origin:
  "calculateDistanceKm double_rt (Finite 0) (Finite 0) (Finite 0) (Finite 0) = Finite 0"
proof -
  have a: "haversine_a double_rt (Finite 0) (Finite 0) (Finite 0) (Finite 0) = Finite 0"
    unfolding haversine_a_def Let_def double_rt_ops
    by (simp add: ieee_sub_def fl_zero fl_one double_toRad_zero)
  show ?thesis
    unfolding calculateDistanceKm_def Let_def a double_rt_ops
    by (simp add: ieee_sub_def fl_zero fl_one ieee_atan2_def atan2_def)
qed

section \<open>The antipodal route in doubles\<close>

lemma antipodal_distance_NaN:
  "pointDistanceKm double_rt (point_at 8 0 0) (point_at (- 8) 180 3600000) = NaN"
  by (simp add: pointDistanceKm_def point_at_def double_distance_NaN)

lemma antipodal_total_NaN:
  "calculateTotalDistance double_rt (Some antipodal_route) 1 = Inr (RStr ''NaN'')"
  unfolding antipodal_route_def calculateTotalDistance_two_points antipodal_distance_NaN
  by (simp add: double_rt_ops)

text \<open>The times of the antipodal route are one hour apart.\<close>

lemma double_hour:
  "ieee_sub (Finite 3600000) (Finite 0) =
     Finite 3600000"
proof -
  have "fl (3600000 - 0) = Finite (real_of_int 7730941132800000 / 2 ^ 31)"
    by (rule fl_round) simp_all
  then show ?thesis by (simp add: ieee_sub_def)
qed

lemma double_hour_quotient:
  "ieee_div (Finite 3600000) (Finite 3600000) =
     Finite 1"
proof -
  have "fl (3600000 / 3600000) = Finite (real_of_int 4503599627370496 / 2 ^ 52)"
    by (rule fl_round) simp_all
  then show ?thesis by simp
qed

lemma double_elapsed_instant:
  "ieee_sub (Finite 116) (Finite 100) =
     Finite 16"
proof -
  have "fl (116 - 100) = Finite (real_of_int 4503599627370496 / 2 ^ 48)"
    by (rule fl_round) simp_all
  then show ?thesis by (simp add: ieee_sub_def)
qed

lemma antipodal_speed_NaN:
  "calculateSpeedKmH double_rt sample_getTime 1 (Some antipodal_route) = Inr (RStr ''NaN'')"
proof -
  have "num_div double_rt (num_sub double_rt (Finite 3600000) (Finite 0)) (Finite 3600000) =
      Finite 1"
    by (simp only: double_rt_ops double_hour double_hour_quotient)
  then have "calculateSpeedKmH double_rt sample_getTime 1 (Some antipodal_route) =
      Inr (toFixed (num_div double_rt
        (pointDistanceKm double_rt (point_at 8 0 0) (point_at (- 8) 180 3600000)) (Finite 1)))"
    by (simp add: calculateSpeedKmH_in_range antipodal_route_def)
      (simp add: point_at_def num_le_def)
  then show ?thesis
    unfolding antipodal_distance_NaN double_rt_ops by (simp add: ieee_div_NaN)
qed

text \<open>In exact arithmetic the term \<open>a\<close> is 1 and the distance is half the circumference.\<close>

lemma exact_distance_antipodal:
  "calculateDistanceKm exact_rt (Finite 8) (Finite 0) (Finite (- 8)) (Finite 180) =
     Finite (6371 * pi)"
proof -
  have a: "haversine_a exact_rt (Finite 8) (Finite 0) (Finite (- 8)) (Finite 180) = Finite 1"
    using sin_cos_squared_add [of "2 * pi / 45"]
    by (simp add: haversine_a_def toRad_def exact_rt_def Let_def power2_eq_square)
  show ?thesis
    unfolding calculateDistanceKm_def Let_def a
    by (simp add: exact_rt_def exact_atan2_def atan2_def)
qed

section \<open>Interpolation in doubles\<close>

lemma double_drift_diff:
  "ieee_sub (Finite (8106479329266893 / 2 ^ 53)) (Finite (5404319552844595 / 2 ^ 54)) =
     Finite (1351079888211149 / 2 ^ 51)"
proof -
  have "fl ((8106479329266893 / 2 ^ 53) - (5404319552844595 / 2 ^ 54)) = Finite (real_of_int 5404319552844596 / 2 ^ 53)"
    by (rule fl_tie) simp_all
  then show ?thesis by (simp add: ieee_sub_def)
qed

lemma double_drift_scaled:
  "ieee_mul (Finite (1351079888211149 / 2 ^ 51)) (Finite 1) =
     Finite (1351079888211149 / 2 ^ 51)"
proof -
  have "fl ((1351079888211149 / 2 ^ 51) * 1) = Finite (real_of_int 5404319552844596 / 2 ^ 53)"
    by (rule fl_round) simp_all
  then show ?thesis by simp
qed

lemma double_drift_sum:
  "ieee_add (Finite (5404319552844595 / 2 ^ 54)) (Finite (1351079888211149 / 2 ^ 51)) =
     Finite (4053239664633447 / 2 ^ 52)"
proof -
  have "fl ((5404319552844595 / 2 ^ 54) + (1351079888211149 / 2 ^ 51)) = Finite (real_of_int 8106479329266894 / 2 ^ 53)"
    by (rule fl_tie) simp_all
  then show ?thesis by simp
qed

lemma double_elapsed:
  "ieee_sub (Finite 2100) (Finite 100) =
     Finite 2000"
proof -
  have "fl (2100 - 100) = Finite (real_of_int 8796093022208000 / 2 ^ 42)"
    by (rule fl_round) simp_all
  then show ?thesis by (simp add: ieee_sub_def)
qed

lemma double_progress:
  "ieee_div (Finite 2000) (Finite 2000) =
     Finite 1"
proof -
  have "fl (2000 / 2000) = Finite (real_of_int 4503599627370496 / 2 ^ 52)"
    by (rule fl_round) simp_all
  then show ?thesis by simp
qed

lemma double_elapsed_late:
  "ieee_sub (Finite 2117) (Finite 100) =
     Finite 2017"
proof -
  have "fl (2117 - 100) = Finite (real_of_int 8870859812896768 / 2 ^ 42)"
    by (rule fl_round) simp_all
  then show ?thesis by (simp add: ieee_sub_def)
qed

lemma double_progress_late:
  "ieee_div (Finite 2017) (Finite 2000) =
     Finite (4541880224203145 / 2 ^ 52)"
proof -
  have "fl (2017 / 2000) = Finite (real_of_int 4541880224203145 / 2 ^ 52)"
    by (rule fl_round) simp_all
  then show ?thesis by simp
qed

lemma drift_progress: "progress_at double_rt drift_animation (Finite 2100) = Finite 1"
proof -
  have "progress_at double_rt drift_animation (Finite 2100) = Math_min (Finite 1) (Finite 1)"
    by (simp only: progress_at_def Let_def drift_animation_def animation.simps double_rt_ops
        double_elapsed double_progress)
  then show ?thesis by (simp add: Math_min_def)
qed

lemma drift_progress_late: "progress_at double_rt drift_animation (Finite 2117) = Finite 1"
proof -
  have "progress_at double_rt drift_animation (Finite 2117) =
      Math_min (Finite 1) (Finite (4541880224203145 / 2 ^ 52))"
    by (simp only: progress_at_def Let_def drift_animation_def animation.simps double_rt_ops
        double_elapsed_late double_progress_late)
  then show ?thesis by (simp add: Math_min_def)
qed

text \<open>At progress 1 the interpolated position is not the end position: in doubles
  \<^verbatim>\<open>0.3 + (0.9 - 0.3) * 1\<close> is \<^verbatim>\<open>0.9000000000000001\<close>.\<close>

lemma drift_interpolated:
  "interpolated double_rt drift_animation (Finite 1) =
     (Finite (4053239664633447 / 2 ^ 52), Finite (4053239664633447 / 2 ^ 52))"
  by (simp only: interpolated_def Let_def drift_animation_def animation.simps double_rt_ops
      fst_conv snd_conv double_drift_diff double_drift_scaled double_drift_sum)

text \<open>With a duration of 0 the quotient is \<^verbatim>\<open>Infinity\<close> and the progress is 1 at once.\<close>

lemma zero_duration_progress:
  "progress_at double_rt (drift_animation\<lparr>duration := Finite 0\<rparr>) (Finite 116) = Finite 1"
proof -
  have "progress_at double_rt (drift_animation\<lparr>duration := Finite 0\<rparr>) (Finite 116) =
      Math_min (Finite 1) (ieee_div (Finite 16) (Finite 0))"
    by (simp only: progress_at_def Let_def drift_animation_def animation.simps double_rt_ops
        double_elapsed_instant)
  then show ?thesis by (simp add: Math_min_def inf_of_def)
qed

section \<open>Instances in double arithmetic\<close>

lemma fl_hour: "fl (3600000) = Finite (3600000)"
proof -
  have "fl (3600000) = Finite (real_of_int (7730941132800000) / 2 ^ 31)"
    by (rule fl_round) simp_all
  then show ?thesis by simp
qed

lemma fl_minus_minute: "fl (- 60000) = Finite (- 60000)"
proof -
  have "fl (- 60000) = Finite (real_of_int (- 8246337208320000) / 2 ^ 37)"
    by (rule fl_round) simp_all
  then show ?thesis by simp
qed

lemma fl_minus_sixtieth: "fl (- (1 / 60)) = Finite (- (4803839602528529 / 2 ^ 58))"
proof -
  have "fl (- (1 / 60)) = Finite (real_of_int (- 4803839602528529) / 2 ^ 58)"
    by (rule fl_round) simp_all
  then show ?thesis by simp
qed

theorem animate_settles_on_target_witness:
  "progress_at double_rt drift_animation (Finite 2100) = Finite 1 \<and>
   interpolated double_rt drift_animation (Finite 1) \<noteq> endLatLng drift_animation \<and>
   marker (animate double_rt drift_animation (Finite 2100)
            (mounted (Some (startLatLng drift_animation)))) =
     Some (endLatLng drift_animation) \<and>
   lastPosition (animate double_rt drift_animation (Finite 2100)
            (mounted (Some (startLatLng drift_animation)))) =
     Some (target drift_animation)"
  using animate_settles_on_target [OF drift_progress,
      of "mounted (Some (startLatLng drift_animation))"]
  by (simp add: drift_progress drift_interpolated) (simp add: drift_animation_def)

theorem calculateTotalDistance_fails_iff_witness:
  "calculateTotalDistance double_rt (Some []) 1 = Inl TypeError \<and>
   calculateTotalDistance double_rt (Some [point_at 0 0 0, point_at 0 0 60000]) 2 = Inl TypeError \<and>
   calculateTotalDistance double_rt (Some [point_at 0 0 0, point_at 0 0 60000]) 1 = Inr (RStr ''0.00'') \<and>
   calculateTotalDistance double_rt (Some [point_at 0 0 0, point_at 0 0 60000]) 0 = Inr (RNum 0)"
  using calculateTotalDistance_fails_iff [of 1 "[]" double_rt]
    calculateTotalDistance_fails_iff [of 2 "[point_at 0 0 0, point_at 0 0 60000]" double_rt]
    calculateTotalDistance_fails_iff [of 1 "[point_at 0 0 0, point_at 0 0 60000]" double_rt]
  by (simp add: calculateTotalDistance_def total_loop.simps array_get_def point_at_def
      double_distance_origin double_rt_ops fl_zero show_nat.simps digit_chars)

theorem speed_not_available_iff_witness:
  "calculateSpeedKmH double_rt sample_getTime 1 (Some [point_at 0 0 60000, point_at 0 0 60000]) =
     Inr (RStr ''N/A'') \<and>
   calculateSpeedKmH double_rt sample_getTime 1 (Some [point_at 0 0 60000, point_at 0 0 0]) =
     Inr (RStr ''N/A'') \<and>
   calculateSpeedKmH double_rt sample_getTime 1 (Some [point_at 0 0 0, point_at 0 0 3600000]) =
     Inr (RStr ''0.00'') \<and>
   spec_elapsedHours sample_getTime (point_at 0 0 60000) (point_at 0 0 0) = Some (- (1 / 60))"
  using speed_not_available_iff [of "[point_at 0 0 60000, point_at 0 0 0]" 1 sample_getTime]
  by (simp add: calculateSpeedKmH_def array_get_def point_at_def spec_elapsedHours_def
      double_distance_origin double_rt_ops ieee_sub_def num_le_def fl_zero fl_one fl_hour
      fl_minus_minute fl_minus_sixtieth show_nat.simps digit_chars)

theorem calculateSpeedKmH_out_of_range_witness:
  "calculateSpeedKmH double_rt sample_getTime (- 1) (Some [point_at 0 0 0, point_at 0 0 60000]) =
     Inr (RStr ''0.00'') \<and>
   calculateSpeedKmH double_rt sample_getTime 2 (Some [point_at 0 0 0, point_at 0 0 60000]) =
     Inr (RStr ''0.00'') \<and>
   calculateSpeedKmH double_rt sample_getTime 7 (Some [point_at 0 0 0, point_at 0 0 60000]) =
     Inr (RStr ''0.00'')"
  using calculateSpeedKmH_out_of_range [of "[point_at 0 0 0, point_at 0 0 60000]" "- 1" double_rt sample_getTime]
    calculateSpeedKmH_out_of_range [of "[point_at 0 0 0, point_at 0 0 60000]" 2 double_rt sample_getTime]
    calculateSpeedKmH_out_of_range [of "[point_at 0 0 0, point_at 0 0 60000]" 7 double_rt sample_getTime]
  by simp

section \<open>Bounds on pi\<close>

lemma cos_below_half_pi: "0 < cos (15707962 / 10 ^ 7 :: real)"
proof -
  define x :: real where "x = 15707962 / 10 ^ 7"
  define S where "S =
      1 - x ^ 2 / 2 + x ^ 4 / 24 - x ^ 6 / 720
        + x ^ 8 / 40320 - x ^ 10 / 3628800 + x ^ 12 / 479001600"
  define E where "E = x ^ 14 / 87178291200"
  have "0 < x" by (simp add: x_def)
  then have b: "\<bar>cos x - S\<bar> \<le> E"
    unfolding S_def E_def by (rule cos_approx_14)
  have "E < S"
    unfolding S_def E_def x_def by (simp add: power_divide)
  then have "0 < cos x" using b by simp
  then show ?thesis by (simp add: x_def)
qed

lemma cos_above_half_pi: "cos (15707969 / 10 ^ 7 :: real) < 0"
proof -
  define x :: real where "x = 15707969 / 10 ^ 7"
  define S where "S =
      1 - x ^ 2 / 2 + x ^ 4 / 24 - x ^ 6 / 720
        + x ^ 8 / 40320 - x ^ 10 / 3628800 + x ^ 12 / 479001600"
  define E where "E = x ^ 14 / 87178291200"
  have "0 < x" by (simp add: x_def)
  then have b: "\<bar>cos x - S\<bar> \<le> E"
    unfolding S_def E_def by (rule cos_approx_14)
  have "S + E < 0"
    unfolding S_def E_def x_def by (simp add: power_divide)
  then have "cos x < 0" using b by simp
  then show ?thesis by (simp add: x_def)
qed

lemma pi_lower: "15707962 / 10 ^ 7 < pi / 2"
proof (rule ccontr)
  assume "\<not> 15707962 / 10 ^ 7 < pi / 2"
  then have h: "pi / 2 \<le> 15707962 / 10 ^ 7" by simp
  have "(15707962 / 10 ^ 7 :: real) \<le> 2" by simp
  then have "15707962 / 10 ^ 7 \<le> pi" using pi_ge_two by linarith
  then have "cos (15707962 / 10 ^ 7) \<le> cos (pi / 2)"
    using h by (intro cos_monotone_0_pi_le) simp_all
  then show False using cos_below_half_pi by simp
qed

lemma pi_upper: "pi / 2 < 15707969 / 10 ^ 7"
proof (rule ccontr)
  assume "\<not> pi / 2 < 15707969 / 10 ^ 7"
  then have h: "15707969 / 10 ^ 7 \<le> pi / 2" by simp
  have "0 \<le> cos (15707969 / 10 ^ 7 :: real)"
    using h by (intro cos_ge_zero) simp_all
  then show False using cos_above_half_pi by simp
qed

text \<open>Half the circumference of the sphere, \<open>6371 * pi\<close> km, prints as \<^verbatim>\<open>20015.09\<close>.\<close>

lemma toFixed_half_circumference: "toFixed (Finite (6371 * pi)) = RStr ''20015.09''"
proof -
  have l: "31415924 / 10 ^ 7 < pi" using pi_lower by simp
  have u: "pi < 31415938 / 10 ^ 7" using pi_upper by simp
  have "\<lfloor>\<bar>6371 * pi\<bar> * 100 + 1 / 2\<rfloor> = 2001509"
    using l u by (intro floor_unique) simp_all
  moreover have "\<not> 10 ^ 21 \<le> \<bar>6371 * pi\<bar>" using u by simp
  moreover have "\<not> 6371 * pi < 0" using l by simp
  ultimately show ?thesis
    by (simp add: show_nat.simps digit_chars del: abs_mult)
qed

section \<open>The distance in exact arithmetic\<close>

lemma sin_half_squared: "sin (x / 2) * sin (x / 2) = (1 - cos x) / (2::real)"
  using cos_double_sin [of "x / 2"] by (simp add: power2_eq_square)

lemma exact_a_alt:
  "exact_a lat1 lon1 lat2 lon2 =
     (1 - cos (exact_toRad lat2 - exact_toRad lat1)) / 2 +
     (cos (exact_toRad lat1 - exact_toRad lat2) + cos (exact_toRad lat1 + exact_toRad lat2)) / 2 *
       (sin (exact_toRad (lon2 - lon1) / 2))\<^sup>2"
proof -
  have d: "exact_toRad (lat2 - lat1) = exact_toRad lat2 - exact_toRad lat1"
    by (simp add: exact_toRad_def left_diff_distrib)
  show ?thesis
    unfolding exact_a_def Let_def d sin_half_squared [of "exact_toRad lat2 - exact_toRad lat1"]
      cos_times_cos [of "exact_toRad lat1" "exact_toRad lat2"]
    by (simp add: power2_eq_square)
qed

text \<open>On the reals the term \<open>a\<close> lies between 0 and 1.\<close>

lemma exact_a_range:
  "0 \<le> exact_a lat1 lon1 lat2 lon2 \<and> exact_a lat1 lon1 lat2 lon2 \<le> 1"
proof -
  define C where "C = cos (exact_toRad lat2 - exact_toRad lat1)"
  define D where "D = cos (exact_toRad lat1 + exact_toRad lat2)"
  define h where "h = (sin (exact_toRad (lon2 - lon1) / 2))\<^sup>2"
  have C': "cos (exact_toRad lat1 - exact_toRad lat2) = C"
    unfolding C_def using cos_minus [of "exact_toRad lat2 - exact_toRad lat1"] by simp
  have a: "exact_a lat1 lon1 lat2 lon2 = (1 - C) / 2 + (C + D) / 2 * h"
    unfolding exact_a_alt C' by (simp add: C_def D_def h_def)
  have C: "- 1 \<le> C" "C \<le> 1" by (simp_all add: C_def)
  have D: "- 1 \<le> D" "D \<le> 1" by (simp_all add: D_def)
  have h: "0 \<le> h" "h \<le> 1"
    by (simp_all add: h_def abs_square_le_1)
  have lo: "(C - 1) / 2 * h \<le> (C + D) / 2 * h"
    using D(1) h(1) by (intro mult_right_mono) simp_all
  have hi: "(C + D) / 2 * h \<le> (C + 1) / 2 * h"
    using D(2) h(1) by (intro mult_right_mono) simp_all
  have "(C + 1) / 2 * h \<le> (C + 1) / 2 * 1"
    using C(1) h(2) by (intro mult_left_mono) simp_all
  then have hi2: "(C + 1) / 2 * h \<le> (C + 1) / 2" by simp
  have "(1 - C) / 2 * h \<le> (1 - C) / 2 * 1"
    using C(2) h(2) by (intro mult_left_mono) simp_all
  then have lo2: "(1 - C) / 2 * h \<le> (1 - C) / 2" by simp
  have "(C - 1) / 2 * h = - ((1 - C) / 2 * h)"
    by (simp add: field_simps)
  then have "0 \<le> (1 - C) / 2 + (C - 1) / 2 * h"
    using lo2 by linarith
  then have "0 \<le> exact_a lat1 lon1 lat2 lon2" using lo a by linarith
  moreover have "exact_a lat1 lon1 lat2 lon2 \<le> 1"
  proof -
    have "exact_a lat1 lon1 lat2 lon2 \<le> (1 - C) / 2 + (C + 1) / 2 * h"
      using hi a by simp
    also have "\<dots> \<le> (1 - C) / 2 + (C + 1) / 2"
      using hi2 by simp
    also have "\<dots> = 1"
      by (simp add: field_simps)
    finally show ?thesis .
  qed
  ultimately show ?thesis by simp
qed

lemma exact_haversine_a:
  "haversine_a exact_rt (Finite lat1) (Finite lon1) (Finite lat2) (Finite lon2) =
     Finite (exact_a lat1 lon1 lat2 lon2)"
  by (simp add: haversine_a_def toRad_def exact_rt_def exact_a_def exact_toRad_def Let_def)

text \<open>So in exact arithmetic the distance of two points is a number, never \<^verbatim>\<open>NaN\<close>, and it
  is not negative.\<close>

lemma exact_distance_finite:
  "\<exists>d. calculateDistanceKm exact_rt (Finite lat1) (Finite lon1) (Finite lat2) (Finite lon2) =
         Finite d \<and> 0 \<le> d"
proof -
  have r: "0 \<le> exact_a lat1 lon1 lat2 lon2" "exact_a lat1 lon1 lat2 lon2 \<le> 1"
    using exact_a_range [of lat1 lon1 lat2 lon2] by simp_all
  have "0 \<le> atan2 (sqrt (exact_a lat1 lon1 lat2 lon2)) (sqrt (1 - exact_a lat1 lon1 lat2 lon2))"
    using r by (auto simp: atan2_def)
  then show ?thesis
    unfolding calculateDistanceKm_def Let_def exact_haversine_a
    using r by (simp add: exact_rt_def exact_atan2_def)
qed

section \<open>The utilities on the antipodal route\<close>

text \<open>Route loading accepts the route.\<close>

lemma antipodal_route_loads: "fetch_route (response_with antipodal_json) = Inr antipodal_json"
  by (simp add: fetch_route_def response_with_def antipodal_json_def valid_point_def)

lemma antipodal_exact_total:
  "calculateTotalDistance exact_rt (Some antipodal_route) 1 = Inr (RStr ''20015.09'')"
proof -
  have "pointDistanceKm exact_rt (point_at 8 0 0) (point_at (- 8) 180 3600000) = Finite (6371 * pi)"
    by (simp add: pointDistanceKm_def point_at_def exact_distance_antipodal)
  then have "calculateTotalDistance exact_rt (Some antipodal_route) 1 =
      Inr (toFixed (Finite (6371 * pi)))"
    unfolding antipodal_route_def calculateTotalDistance_two_points
    by (simp add: exact_rt_def)
  then show ?thesis by (simp only: toFixed_half_circumference)
qed

lemma antipodal_exact_speed:
  "calculateSpeedKmH exact_rt sample_getTime 1 (Some antipodal_route) = Inr (RStr ''20015.09'')"
proof -
  have "num_div exact_rt (num_sub exact_rt (Finite 3600000) (Finite 0)) (Finite 3600000) =
      Finite 1"
    by (simp add: exact_rt_def)
  then have "calculateSpeedKmH exact_rt sample_getTime 1 (Some antipodal_route) =
      Inr (toFixed (num_div exact_rt
        (pointDistanceKm exact_rt (point_at 8 0 0) (point_at (- 8) 180 3600000)) (Finite 1)))"
    by (simp add: calculateSpeedKmH_in_range antipodal_route_def)
      (simp add: point_at_def num_le_def)
  moreover have "pointDistanceKm exact_rt (point_at 8 0 0) (point_at (- 8) 180 3600000) =
      Finite (6371 * pi)"
    by (simp add: pointDistanceKm_def point_at_def exact_distance_antipodal)
  ultimately have "calculateSpeedKmH exact_rt sample_getTime 1 (Some antipodal_route) =
      Inr (toFixed (Finite (6371 * pi)))"
    by (simp add: exact_rt_def)
  then show ?thesis by (simp only: toFixed_half_circumference)
qed

lemma numeric_value_NaN: "numeric_value (RStr ''NaN'') = None"
  by (simp add: decimal_value_def unsigned_value_def is_digit_def)

text \<open>
  C3 says that for an index within the route \<open>calculateTotalDistance\<close> returns the sum of
  the Haversine distances rounded to two decimal places.  On the route of the two points
  (8, 0) and (-8, 180), which route loading accepts, the doubles make the term \<open>a\<close> of the
  formula \<open>1 + 2^-52\<close>, \<^verbatim>\<open>Math.sqrt(1 - a)\<close> is \<^verbatim>\<open>NaN\<close>, and \<open>calculateTotalDistance\<close> returns
  the string \<^verbatim>\<open>NaN\<close> at index 1.  The distance is \<open>6371 * pi\<close> km, and in exact arithmetic the
  same code returns \<^verbatim>\<open>20015.09\<close>.
\<close>

theorem calculateTotalDistance_antipodal:
  "calculateTotalDistance double_rt (Some antipodal_route) 1 = Inr (RStr ''NaN'') \<and>
   calculateTotalDistance exact_rt (Some antipodal_route) 1 = Inr (RStr ''20015.09'')"
  by (simp only: antipodal_total_NaN antipodal_exact_total)

text \<open>
  C4 says that the numeric value of the cumulative distance does not decrease with the
  index.  On the same route the value at index 0 is the number 0 and the value at index 1
  is the string \<^verbatim>\<open>NaN\<close>, which has no numeric value: 0 is not less than or equal to it.
\<close>

theorem cumulative_distance_antipodal:
  "calculateTotalDistance double_rt (Some antipodal_route) 0 = Inr (RNum 0) \<and>
   numeric_value (RNum 0) = Some 0 \<and>
   calculateTotalDistance double_rt (Some antipodal_route) 1 = Inr (RStr ''NaN'') \<and>
   numeric_value (RStr ''NaN'') = None"
proof -
  have "calculateTotalDistance double_rt (Some antipodal_route) 0 = Inr (RNum 0)"
    by (simp add: calculateTotalDistance_def)
  then show ?thesis
    by (simp only: antipodal_total_NaN numeric_value_NaN numeric_value.simps(1) simp_thms)
qed

text \<open>
  C6 says that for a positive elapsed time \<open>calculateSpeedKmH\<close> returns the Haversine
  distance divided by the elapsed hours, rounded to two decimal places.  On the same
  route, whose points are one hour apart, it returns the string \<^verbatim>\<open>NaN\<close> at index 1; in
  exact arithmetic the same code returns \<^verbatim>\<open>20015.09\<close>.
\<close>

theorem calculateSpeedKmH_antipodal:
  "spec_elapsedHours sample_getTime (point_at 8 0 0) (point_at (- 8) 180 3600000) = Some 1 \<and>
   calculateSpeedKmH double_rt sample_getTime 1 (Some antipodal_route) = Inr (RStr ''NaN'') \<and>
   calculateSpeedKmH exact_rt sample_getTime 1 (Some antipodal_route) = Inr (RStr ''20015.09'')"
  by (simp add: antipodal_speed_NaN antipodal_exact_speed spec_elapsedHours_def point_at_def)

end
